theory Spec2Isabelle
  imports Complex_Main "HOL-Library.Word" "HOL-Library.AList"
begin

section \<open>Data model\<close>

text \<open>
  The agent session engine of openui: \<^verbatim>\<open>server/services/sessionManager.ts\<close>,
  \<^verbatim>\<open>server/routes/api.ts\<close> and \<^verbatim>\<open>server/types\<close>.

  A JavaScript string is a sequence of UTF-16 code units; \<^verbatim>\<open>data.length\<close>, \<^verbatim>\<open>slice\<close> and the
  regular expressions of the source all work on code units.
\<close>

type_synonym codeunit = "16 word"
type_synonym jsstring = "codeunit list"

definition asc :: "string \<Rightarrow> jsstring" where
  "asc s = map of_char s"

text \<open>
  A JavaScript number is a double. The session engine never computes with the numbers it
  reads from a payload, it only tests them (\<^verbatim>\<open>typeof\<close>, truthiness) and stores them, so a
  number is kept as the value it denotes; the two zeros are one value here.
\<close>

datatype jsnum = NaN | Infinity bool | Finite rat

datatype jsval =
    JUndefined
  | JNull
  | JBool bool
  | JNum jsnum
  | JStr jsstring
  | JArr "jsval list"
  | JObj "(jsstring \<times> jsval) list"

text \<open>\<^verbatim>\<open>AgentStatus\<close> of \<^verbatim>\<open>server/types\<close>.\<close>

datatype agentStatus =
  Starting | Running | Waiting_input | Tool_calling | Idle | Disconnected | Error_status

text \<open>
  \<^verbatim>\<open>ClaudeMetrics\<close>. The TypeScript types are erased at run time: \<^verbatim>\<open>parseMetrics\<close> stores
  whatever truthy value the payload carries, so the fields hold JavaScript values.
\<close>

record claudeMetrics =
  model :: jsval
  cost :: jsval
  linesAdded :: jsval
  linesRemoved :: jsval
  contextPercent :: jsval
  inputTokens :: jsval
  outputTokens :: jsval
  state :: jsval

text \<open>
  An observer is a web socket; \<^verbatim>\<open>readyState === 1\<close> is an open one. \<^verbatim>\<open>session.clients\<close> is
  a \<^verbatim>\<open>Set\<close>, iterated in insertion order.
\<close>

record client =
  clientId :: nat
  readyState :: nat

text \<open>The three messages of the realtime channel.\<close>

datatype wsEvent =
    OutputEvent jsstring
  | StatusEvent agentStatus bool
  | MetricsEvent claudeMetrics

type_synonym pty = nat

record session =
  pty :: "pty option"
  agentId :: jsstring
  agentName :: jsstring
  command :: jsstring
  cwd :: jsstring
  gitBranch :: "jsstring option"
  worktreePath :: "jsstring option"
  createdAt :: jsstring
  clients :: "client list"
  outputBuffer :: "jsstring list"
  status :: agentStatus
  lastOutputTime :: int
  lastInputTime :: int
  recentOutputSize :: int
  customName :: "jsstring option"
  customColor :: "jsstring option"
  sessionNotes :: "jsstring option"
  nodeId :: jsstring
  isRestored :: bool
  metrics :: "claudeMetrics option"
  ticketId :: "jsstring option"
  ticketTitle :: "jsstring option"
  ticketUrl :: "jsstring option"

text \<open>\<^verbatim>\<open>PersistedNode\<close> and \<^verbatim>\<open>PersistedState\<close> (the categories play no part below).\<close>

record persistedNode =
  node_nodeId :: jsstring
  node_sessionId :: jsstring
  node_agentId :: jsstring
  node_agentName :: jsstring
  node_command :: jsstring
  node_cwd :: jsstring
  node_createdAt :: jsstring
  node_customName :: "jsstring option"
  node_customColor :: "jsstring option"
  node_notes :: "jsstring option"
  node_position :: "int \<times> int"

record persistedState =
  nodes :: "persistedNode list"

section \<open>The metrics extractor\<close>

subsection \<open>The three regular expressions of \<^verbatim>\<open>parseMetrics\<close>\<close>

text \<open>
  \<^verbatim>\<open>data.replace(/\x1b\[[0-9;]*m/g, '')\<close>. At an escape character followed by \<^verbatim>\<open>[\<close> the
  greedy run of digits and semicolons is taken; the sequence matches when \<^verbatim>\<open>m\<close> follows
  the run (no shorter run can be followed by \<^verbatim>\<open>m\<close>, a character outside the class).
\<close>

definition isSgrParam :: "codeunit \<Rightarrow> bool" where
  "isSgrParam c = ((0x30 \<le> c \<and> c \<le> 0x39) \<or> c = 0x3B)"

definition ansiAt :: "jsstring \<Rightarrow> jsstring option" where
  "ansiAt s =
     (case s of
        e # b # r \<Rightarrow>
          if e = 0x1B \<and> b = 0x5B then
            (case dropWhile isSgrParam r of
               m # r' \<Rightarrow> if m = 0x6D then Some r' else None
             | [] \<Rightarrow> None)
          else None
      | _ \<Rightarrow> None)"

function stripAnsi :: "jsstring \<Rightarrow> jsstring" where
  "stripAnsi [] = []"
| "stripAnsi (c # cs) =
     (case ansiAt (c # cs) of
        Some r \<Rightarrow> stripAnsi r
      | None \<Rightarrow> c # stripAnsi cs)"
  by pat_completeness auto
termination
proof (relation "measure length")
  fix c cs r
  assume a: "ansiAt (c # cs) = Some r"
  then obtain b t where s: "cs = b # t"
    by (auto simp: ansiAt_def split: list.splits)
  from a s obtain m where "dropWhile isSgrParam t = m # r"
    by (auto simp: ansiAt_def split: list.splits if_splits)
  then have "length (m # r) \<le> length t"
    by (metis length_dropWhile_le)
  with s show "(r, c # cs) \<in> measure length" by simp
qed simp_all

text \<open>
  \<^verbatim>\<open>cleanData.replace(/\s+/g, ' ')\<close>: every maximal run of white space becomes one space.
  \<^verbatim>\<open>\s\<close> is the white space and the line terminators of ECMAScript.
\<close>

definition isSpace :: "codeunit \<Rightarrow> bool" where
  "isSpace c =
     (c \<in> {0x09, 0x0A, 0x0B, 0x0C, 0x0D, 0x20, 0xA0, 0x1680, 0x2028, 0x2029, 0x202F,
            0x205F, 0x3000, 0xFEFF}
      \<or> (0x2000 \<le> c \<and> c \<le> 0x200A))"

function normalizeSpace :: "jsstring \<Rightarrow> jsstring" where
  "normalizeSpace [] = []"
| "normalizeSpace (c # cs) =
     (if isSpace c then 0x20 # normalizeSpace (dropWhile isSpace cs)
      else c # normalizeSpace cs)"
  by pat_completeness auto
termination
  by (relation "measure length") (auto simp: le_imp_less_Suc length_dropWhile_le)

text \<open>
  \<^verbatim>\<open>normalized.match(/\[OPENUI:\{[^}]+\}\]/g)\<close>: the matches from left to right, each search
  starting where the last match ended. After the opening \<^verbatim>\<open>[OPENUI:{\<close> the greedy class
  runs to the first \<^verbatim>\<open>}\<close>; the attempt succeeds when the run is not empty and \<^verbatim>\<open>}]\<close>
  follows it. \<^verbatim>\<open>tagAt\<close> gives the matched text and the rest of the subject.
\<close>

definition tagAt :: "jsstring \<Rightarrow> (jsstring \<times> jsstring) option" where
  "tagAt s =
     (if take 9 s = asc ''[OPENUI:{'' then
        (let body = takeWhile (\<lambda>c. c \<noteq> 0x7D) (drop 9 s);
             after = dropWhile (\<lambda>c. c \<noteq> 0x7D) (drop 9 s)
         in if body \<noteq> [] \<and> take 2 after = asc ''}]''
            then Some (asc ''[OPENUI:{'' @ body @ asc ''}]'', drop 2 after)
            else None)
      else None)"

function tagMatches :: "jsstring \<Rightarrow> jsstring list" where
  "tagMatches [] = []"
| "tagMatches (c # cs) =
     (case tagAt (c # cs) of
        Some (m, r) \<Rightarrow> m # tagMatches r
      | None \<Rightarrow> tagMatches cs)"
  by pat_completeness auto
termination
proof (relation "measure length")
  fix c cs x m r
  assume a: "tagAt (c # cs) = Some x" and x: "(m, r) = x"
  let ?s = "c # cs"
  from a x have r: "r = drop 2 (dropWhile (\<lambda>c. c \<noteq> 0x7D) (drop 9 ?s))"
    and nine: "take 9 ?s = asc ''[OPENUI:{''"
    by (auto simp: tagAt_def Let_def split: if_splits)
  from nine have "length (take 9 ?s) = 9" by (simp add: asc_def)
  then have "9 \<le> length ?s" by simp
  moreover have "length r \<le> length (drop 9 ?s)"
    unfolding r by (metis length_dropWhile_le length_drop diff_le_self le_trans)
  ultimately show "(r, c # cs) \<in> measure length" by simp
qed simp_all

subsection \<open>JavaScript values as \<^verbatim>\<open>parseMetrics\<close> uses them\<close>

text \<open>
  \<^verbatim>\<open>JSON.parse\<close> and \<^verbatim>\<open>parseFloat\<close> are built-ins of the language, not code of the
  repository: the functions below take them as arguments. \<^verbatim>\<open>JSON.parse\<close> gives \<open>None\<close>
  where it throws a \<^verbatim>\<open>SyntaxError\<close>; \<^verbatim>\<open>parseFloat\<close> is applied to a value (it converts
  its argument to a string first) and always gives a number.
\<close>

type_synonym jsonParse = "jsstring \<Rightarrow> jsval option"
type_synonym parseFloatFn = "jsval \<Rightarrow> jsnum"

text \<open>Truthiness: \<^verbatim>\<open>undefined\<close>, \<^verbatim>\<open>null\<close>, \<^verbatim>\<open>false\<close>, zero, \<^verbatim>\<open>NaN\<close> and \<^verbatim>\<open>""\<close> are falsy.\<close>

fun truthy :: "jsval \<Rightarrow> bool" where
  "truthy JUndefined = False"
| "truthy JNull = False"
| "truthy (JBool b) = b"
| "truthy (JNum n) = (n \<noteq> NaN \<and> n \<noteq> Finite 0)"
| "truthy (JStr s) = (s \<noteq> [])"
| "truthy (JArr xs) = True"
| "truthy (JObj kvs) = True"

text \<open>\<^verbatim>\<open>a || b\<close>.\<close>

definition orElse :: "jsval \<Rightarrow> jsval \<Rightarrow> jsval" where
  "orElse a b = (if truthy a then a else b)"

text \<open>
  \<^verbatim>\<open>json.k\<close> for the keys the extractor reads (\<^verbatim>\<open>m c la lr cp it ot s\<close>, none of them a
  property of a prototype): the own property of an object, \<^verbatim>\<open>undefined\<close> on any other
  value that has properties. On \<^verbatim>\<open>null\<close> and \<^verbatim>\<open>undefined\<close> the access throws a
  \<^verbatim>\<open>TypeError\<close>, which \<open>nullish\<close> tells.
\<close>

fun getProp :: "jsval \<Rightarrow> jsstring \<Rightarrow> jsval" where
  "getProp (JObj kvs) k = (case map_of kvs k of Some v \<Rightarrow> v | None \<Rightarrow> JUndefined)"
| "getProp v k = JUndefined"

fun nullish :: "jsval \<Rightarrow> bool" where
  "nullish JUndefined = True"
| "nullish JNull = True"
| "nullish v = False"

text \<open>
  Two facts about the built-ins that the cost of a snapshot rests on: \<^verbatim>\<open>parseFloat\<close> of a
  falsy value that is not a number (\<^verbatim>\<open>undefined\<close>, \<^verbatim>\<open>null\<close>, \<^verbatim>\<open>false\<close>, the empty string)
  is \<^verbatim>\<open>NaN\<close>, and JSON has no \<^verbatim>\<open>NaN\<close>, so \<^verbatim>\<open>JSON.parse\<close> gives none.
\<close>

definition parseFloatOfFalsy :: "parseFloatFn \<Rightarrow> bool" where
  "parseFloatOfFalsy toFloat = (\<forall>v. \<not> truthy v \<and> (\<forall>n. v \<noteq> JNum n) \<longrightarrow> toFloat v = NaN)"

definition parseWithoutNaN :: "jsonParse \<Rightarrow> bool" where
  "parseWithoutNaN parse =
     (\<forall>text json. parse text = Some json \<longrightarrow> getProp json (asc ''c'') \<noteq> JNum NaN)"

subsection \<open>\<^verbatim>\<open>parseMetrics\<close> and \<^verbatim>\<open>scanBufferForMetrics\<close>\<close>

text \<open>The object literal that \<^verbatim>\<open>parseMetrics\<close> returns for an accepted payload.\<close>

definition metricsOf :: "parseFloatFn \<Rightarrow> jsval \<Rightarrow> claudeMetrics" where
  "metricsOf toFloat json =
     \<lparr> model = orElse (getProp json (asc ''m'')) (JStr (asc ''Claude'')),
       cost = (case getProp json (asc ''c'') of
                 JNum n \<Rightarrow> JNum n
               | v \<Rightarrow> orElse (JNum (toFloat v)) (JNum (Finite 0))),
       linesAdded = orElse (getProp json (asc ''la'')) (JNum (Finite 0)),
       linesRemoved = orElse (getProp json (asc ''lr'')) (JNum (Finite 0)),
       contextPercent = orElse (getProp json (asc ''cp'')) (JNum (Finite 0)),
       inputTokens = orElse (getProp json (asc ''it'')) (JNum (Finite 0)),
       outputTokens = orElse (getProp json (asc ''ot'')) (JNum (Finite 0)),
       state = orElse (getProp json (asc ''s'')) JUndefined \<rparr>"

text \<open>
  The body of the loop for one match: \<^verbatim>\<open>match.slice(8, -1)\<close>, the \<^verbatim>\<open>try\<close> around
  \<^verbatim>\<open>JSON.parse\<close> and the test of the two fields. \<open>None\<close> is every way on to the next
  match: the \<^verbatim>\<open>catch\<close> (\<^verbatim>\<open>continue\<close>) and the failed test.
\<close>

definition jsonPart :: "jsstring \<Rightarrow> jsstring" where
  "jsonPart match = drop 8 (butlast match)"

definition tryCandidate :: "jsonParse \<Rightarrow> parseFloatFn \<Rightarrow> jsstring \<Rightarrow> claudeMetrics option" where
  "tryCandidate parse toFloat match =
     (case parse (jsonPart match) of
        None \<Rightarrow> None
      | Some json \<Rightarrow>
          if nullish json then None
          else if getProp json (asc ''m'') \<noteq> JUndefined \<or> getProp json (asc ''c'') \<noteq> JUndefined
          then Some (metricsOf toFloat json)
          else None)"

text \<open>
  \<^verbatim>\<open>for (let i = matches.length - 1; i >= 0; i--)\<close>: the argument counts the matches not
  yet tried, \<open>Suc i\<close> standing for the loop at index \<open>i\<close> and \<open>0\<close> for its end.
\<close>

fun tryFrom :: "jsonParse \<Rightarrow> parseFloatFn \<Rightarrow> jsstring list \<Rightarrow> nat \<Rightarrow> claudeMetrics option" where
  "tryFrom parse toFloat matches 0 = None"
| "tryFrom parse toFloat matches (Suc i) =
     (case tryCandidate parse toFloat (matches ! i) of
        Some r \<Rightarrow> Some r
      | None \<Rightarrow> tryFrom parse toFloat matches i)"

definition parseMetrics :: "jsonParse \<Rightarrow> parseFloatFn \<Rightarrow> jsstring \<Rightarrow> claudeMetrics option" where
  "parseMetrics parse toFloat data =
     (let cleanData = stripAnsi data;
          normalized = normalizeSpace cleanData;
          matches = tagMatches normalized
      in if matches = [] then None
         else tryFrom parse toFloat matches (length matches))"

text \<open>\<^verbatim>\<open>buffer.slice(-5000)\<close> is the last 5000 code units, the whole text when it is shorter.\<close>

definition scanBufferForMetrics :: "jsonParse \<Rightarrow> parseFloatFn \<Rightarrow> session \<Rightarrow> claudeMetrics option" where
  "scanBufferForMetrics parse toFloat s =
     (if agentId s \<noteq> asc ''claude'' then None
      else let buffer = concat (outputBuffer s);
               recentBuffer = drop (length buffer - 5000) buffer
           in parseMetrics parse toFloat recentBuffer)"

subsection \<open>The extractor as the design describes it\<close>

text \<open>
  The design in its own words, to compare \<^verbatim>\<open>parseMetrics\<close> with: the candidates are the
  tags found in the cleaned text; a candidate is acceptable when its payload parses and
  has the model \<^verbatim>\<open>m\<close> or the cost \<^verbatim>\<open>c\<close>; scanning backward from the most recent
  candidate, the first acceptable one gives the snapshot, and there is no result when
  none is acceptable.
\<close>

definition candidates :: "jsstring \<Rightarrow> jsstring list" where
  "candidates data = tagMatches (normalizeSpace (stripAnsi data))"

definition hasField :: "jsval \<Rightarrow> jsstring \<Rightarrow> bool" where
  "hasField json k = (getProp json k \<noteq> JUndefined)"

definition acceptable :: "jsonParse \<Rightarrow> jsstring \<Rightarrow> bool" where
  "acceptable parse candidate =
     (case parse (jsonPart candidate) of
        None \<Rightarrow> False
      | Some json \<Rightarrow> hasField json (asc ''m'') \<or> hasField json (asc ''c''))"

definition snapshotOf :: "jsonParse \<Rightarrow> parseFloatFn \<Rightarrow> jsstring \<Rightarrow> claudeMetrics option" where
  "snapshotOf parse toFloat candidate = map_option (metricsOf toFloat) (parse (jsonPart candidate))"

definition mostRecentAcceptable ::
  "jsonParse \<Rightarrow> parseFloatFn \<Rightarrow> jsstring \<Rightarrow> claudeMetrics option" where
  "mostRecentAcceptable parse toFloat data =
     (case find (acceptable parse) (rev (candidates data)) of
        None \<Rightarrow> None
      | Some candidate \<Rightarrow> snapshotOf parse toFloat candidate)"

section \<open>Output of a pseudo-terminal\<close>

text \<open>
  \<^verbatim>\<open>detectStatus\<close> (\<^verbatim>\<open>services/statusDetector\<close>) is called by the handlers below; they take
  the classifier as an argument, a function of the time of the call and of the session.
\<close>

type_synonym classifier = "int \<Rightarrow> session \<Rightarrow> agentStatus"

definition MAX_BUFFER_SIZE :: nat where
  "MAX_BUFFER_SIZE = 1000"

text \<open>
  \<^verbatim>\<open>session.outputBuffer.push(data); if (length > bound) session.outputBuffer.shift()\<close>.
  The handler of \<^verbatim>\<open>createSession\<close> names the bound \<^verbatim>\<open>MAX_BUFFER_SIZE\<close>, the handler of
  the restart route writes 1000.
\<close>

definition pushOutput :: "nat \<Rightarrow> jsstring list \<Rightarrow> jsstring \<Rightarrow> jsstring list" where
  "pushOutput bound buf data =
     (let pushed = buf @ [data]
      in if length pushed > bound then tl pushed else pushed)"

definition openClients :: "session \<Rightarrow> client list" where
  "openClients s = filter (\<lambda>c. readyState c = 1) (clients s)"

text \<open>
  \<^verbatim>\<open>ptyProcess.onData\<close> of \<^verbatim>\<open>createSession\<close>. \<open>agent\<close> is the \<^verbatim>\<open>agentId\<close> of the
  creation request, which the closure keeps; \<open>now\<close> is \<^verbatim>\<open>Date.now()\<close>. The result is the
  session after the chunk and the messages sent, each with the client it went to, in the
  order of the \<^verbatim>\<open>send\<close> calls. The two debug lines written to the console are left out.
\<close>

definition onData ::
  "classifier \<Rightarrow> jsonParse \<Rightarrow> parseFloatFn \<Rightarrow> jsstring \<Rightarrow> int \<Rightarrow> session \<Rightarrow> jsstring
     \<Rightarrow> session \<times> (nat \<times> wsEvent) list" where
  "onData detect parse toFloat agent now s data =
     (let s1 = s\<lparr> outputBuffer := pushOutput MAX_BUFFER_SIZE (outputBuffer s) data,
                   lastOutputTime := now,
                   recentOutputSize := recentOutputSize s + int (length data) \<rparr>;
          found = (if agent = asc ''claude'' then parseMetrics parse toFloat data else None);
          s2 = (case found of Some m \<Rightarrow> s1\<lparr> metrics := Some m \<rparr> | None \<Rightarrow> s1);
          sentMetrics = (case found of
                           Some m \<Rightarrow> map (\<lambda>c. (clientId c, MetricsEvent m)) (openClients s2)
                         | None \<Rightarrow> []);
          newStatus = detect now s2;
          statusChanged = (newStatus \<noteq> status s2);
          s3 = s2\<lparr> status := newStatus \<rparr>;
          sentOutput = concat (map (\<lambda>c.
                         (clientId c, OutputEvent data) #
                         (if statusChanged
                          then [(clientId c, StatusEvent (status s3) (isRestored s3))]
                          else []))
                       (openClients s3))
      in (s3, sentMetrics @ sentOutput))"

fun isStatusEvent :: "wsEvent \<Rightarrow> bool" where
  "isStatusEvent (StatusEvent st restored) = True"
| "isStatusEvent ev = False"

fun isMetricsEvent :: "wsEvent \<Rightarrow> bool" where
  "isMetricsEvent (MetricsEvent m) = True"
| "isMetricsEvent ev = False"

text \<open>
  \<^verbatim>\<open>ptyProcess.onData\<close> of the restart route: the buffer, the two counters and the
  \<^verbatim>\<open>output\<close> message, nothing else.
\<close>

definition onDataRestart :: "int \<Rightarrow> session \<Rightarrow> jsstring \<Rightarrow> session \<times> (nat \<times> wsEvent) list" where
  "onDataRestart now s data =
     (let s1 = s\<lparr> outputBuffer := pushOutput 1000 (outputBuffer s) data,
                   lastOutputTime := now,
                   recentOutputSize := recentOutputSize s + int (length data) \<rparr>
      in (s1, map (\<lambda>c. (clientId c, OutputEvent data)) (openClients s1)))"

text \<open>
  The callback of \<^verbatim>\<open>setInterval(..., 500)\<close>, set by \<^verbatim>\<open>createSession\<close> and by the restart
  route alike. \<open>registered\<close> is \<^verbatim>\<open>sessions.has(sessionId)\<close>; the second component tells
  whether the interval goes on (\<open>False\<close>: \<^verbatim>\<open>clearInterval\<close>).
\<close>

definition decayTick :: "bool \<Rightarrow> session \<Rightarrow> session \<times> bool" where
  "decayTick registered s =
     (if \<not> registered \<or> pty s = None then (s, False)
      else (s\<lparr> recentOutputSize := max 0 (recentOutputSize s - 50) \<rparr>, True))"

text \<open>
  What happens to one registered session, one event after the other: a chunk through the
  handler of \<^verbatim>\<open>createSession\<close>, a chunk through the handler of the restart route, a tick
  of the decay interval. A chunk carries the time it arrives at.
\<close>

datatype sessionEvent =
    Chunk int jsstring
  | RestartChunk int jsstring
  | Tick

fun chunkOf :: "sessionEvent \<Rightarrow> jsstring list" where
  "chunkOf (Chunk now data) = [data]"
| "chunkOf (RestartChunk now data) = [data]"
| "chunkOf Tick = []"

fun step ::
  "classifier \<Rightarrow> jsonParse \<Rightarrow> parseFloatFn \<Rightarrow> jsstring \<Rightarrow> session \<Rightarrow> sessionEvent \<Rightarrow> session" where
  "step detect parse toFloat agent s (Chunk now data) =
     fst (onData detect parse toFloat agent now s data)"
| "step detect parse toFloat agent s (RestartChunk now data) = fst (onDataRestart now s data)"
| "step detect parse toFloat agent s Tick = fst (decayTick True s)"

definition run ::
  "classifier \<Rightarrow> jsonParse \<Rightarrow> parseFloatFn \<Rightarrow> jsstring \<Rightarrow> session \<Rightarrow> sessionEvent list
     \<Rightarrow> session" where
  "run detect parse toFloat agent s es = foldl (step detect parse toFloat agent) s es"

text \<open>The states a session goes through, the first one included.\<close>

fun trace ::
  "classifier \<Rightarrow> jsonParse \<Rightarrow> parseFloatFn \<Rightarrow> jsstring \<Rightarrow> session \<Rightarrow> sessionEvent list
     \<Rightarrow> session list" where
  "trace detect parse toFloat agent s [] = [s]"
| "trace detect parse toFloat agent s (e # es) =
     s # trace detect parse toFloat agent (step detect parse toFloat agent s e) es"

text \<open>The chunks of a run in the order of their emission, and the last \<open>n\<close> of a list.\<close>

definition emitted :: "sessionEvent list \<Rightarrow> jsstring list" where
  "emitted es = concat (map chunkOf es)"

definition mostRecent :: "nat \<Rightarrow> 'a list \<Rightarrow> 'a list" where
  "mostRecent n xs = drop (length xs - n) xs"

section \<open>The registry and the operations on it\<close>

text \<open>
  \<^verbatim>\<open>sessions\<close> is a \<^verbatim>\<open>Map\<close> from session ids to session objects: an association list in
  insertion order, \<^verbatim>\<open>set\<close> being \<open>AList.update\<close> and \<^verbatim>\<open>get\<close> being \<open>map_of\<close>. The world
  around it: the shells spawned so far (handle and working directory), the session ids
  whose decay interval has been set, and what was written to the console.
\<close>

type_synonym registry = "(jsstring \<times> session) list"

datatype logLine =
    Log_worktree_exists jsstring
  | Log_fetching
  | Log_worktree_existing_branch jsstring
  | Log_worktree_tracking_remote jsstring
  | Log_worktree_new_branch jsstring jsstring
  | Error_worktree_add_failed jsstring
  | Log_worktree_created jsstring
  | Log_using_worktree jsstring
  | Error_failed_worktree "jsstring option"
  | Log_created jsstring
  | Log_restarted jsstring
  | Log_killed jsstring
  | Log_found nat
  | Log_restored jsstring

record world =
  sessions :: registry
  spawned :: "(pty \<times> jsstring) list"
  intervals :: "jsstring list"
  console :: "logLine list"

text \<open>
  What the operations read from outside the program. \<^verbatim>\<open>OPENUI_QUIET\<close> turns \<^verbatim>\<open>log\<close> and
  \<^verbatim>\<open>logError\<close> into functions that do nothing. \<^verbatim>\<open>getGitRoot\<close> and \<^verbatim>\<open>getGitBranch\<close> run
  git inside a \<^verbatim>\<open>try\<close> and give what it printed, or null. \<^verbatim>\<open>basename\<close>, \<^verbatim>\<open>join\<close>,
  \<^verbatim>\<open>existsSync\<close>, \<^verbatim>\<open>mkdirSync\<close> and \<^verbatim>\<open>spawnSync\<close> are the built-ins that
  \<^verbatim>\<open>createWorktree\<close> calls: the answer of each is the answer at the time of the call;
  \<^verbatim>\<open>mkdirSync\<close> is \<open>False\<close> where it throws, and \<^verbatim>\<open>spawnSync\<close> either throws or gives the
  exit code, the standard output and the standard error of the process. \<^verbatim>\<open>spawnPty\<close>
  gives the handle of the new shell; \<^verbatim>\<open>loadBuffer\<close> (\<^verbatim>\<open>services/persistence\<close>) reads the
  buffer file of a session id.
\<close>

datatype spawnResult =
    SpawnThrew
  | Exited int jsstring jsstring

record worktreeResult =
  success :: bool
  result_worktreePath :: "jsstring option"
  result_error :: "jsstring option"

record env =
  QUIET :: bool
  getGitRoot :: "jsstring \<Rightarrow> jsstring option"
  getGitBranch :: "jsstring \<Rightarrow> jsstring option"
  basename :: "jsstring \<Rightarrow> jsstring"
  pathJoin :: "jsstring list \<Rightarrow> jsstring"
  existsSync :: "jsstring \<Rightarrow> bool"
  mkdirSync :: "jsstring \<Rightarrow> bool"
  spawnSync :: "jsstring list \<Rightarrow> jsstring \<Rightarrow> spawnResult"
  spawnPty :: "jsstring \<Rightarrow> pty"
  loadBuffer :: "jsstring \<Rightarrow> jsstring list"
  dateNow :: int
  isoNow :: jsstring

text \<open>\<^verbatim>\<open>log\<close> (named \<open>log_msg\<close> here, \<open>log\<close> being the logarithm) and \<^verbatim>\<open>logError\<close>.\<close>

definition log_msg :: "env \<Rightarrow> logLine \<Rightarrow> world \<Rightarrow> world" where
  "log_msg e l w = (if QUIET e then w else w\<lparr> console := console w @ [l] \<rparr>)"

definition logError :: "env \<Rightarrow> logLine \<Rightarrow> world \<Rightarrow> world" where
  "logError e l w = (if QUIET e then w else w\<lparr> console := console w @ [l] \<rparr>)"

text \<open>An optional string is truthy when it is there and not empty; \<^verbatim>\<open>s || undefined\<close>.\<close>

fun truthyStr :: "jsstring option \<Rightarrow> bool" where
  "truthyStr None = False"
| "truthyStr (Some s) = (s \<noteq> [])"

definition orUndefined :: "jsstring option \<Rightarrow> jsstring option" where
  "orUndefined v = (if truthyStr v then v else None)"

subsection \<open>\<^verbatim>\<open>createWorktree\<close>\<close>

text \<open>
  An exception that nothing in \<^verbatim>\<open>createWorktree\<close>, \<^verbatim>\<open>createSession\<close> or the route catches:
  \<^verbatim>\<open>mkdirSync\<close> of a directory, \<^verbatim>\<open>spawnSync\<close> of a command.
\<close>

datatype thrown =
    Mkdir_threw jsstring
  | Spawn_threw "jsstring list"

text \<open>\<^verbatim>\<open>branchName.replace(/\//g, "-")\<close>.\<close>

definition sanitizeBranch :: "jsstring \<Rightarrow> jsstring" where
  "sanitizeBranch branchName = map (\<lambda>c. if c = 0x2F then 0x2D else c) branchName"

text \<open>
  The second half of \<^verbatim>\<open>createWorktree\<close>, from the fetch on: the two \<^verbatim>\<open>rev-parse\<close> probes,
  the \<^verbatim>\<open>git worktree add\<close> that fits their exit codes, and the report. The lines it
  writes through \<^verbatim>\<open>log\<close> and \<^verbatim>\<open>logError\<close> go to the console of the world.
\<close>

definition addWorktree ::
  "env \<Rightarrow> jsstring \<Rightarrow> jsstring \<Rightarrow> jsstring \<Rightarrow> jsstring \<Rightarrow> world
     \<Rightarrow> (thrown + worktreeResult) \<times> world" where
  "addWorktree e gitRoot wtPath branchName baseBranch w =
     (let fetch = [asc ''git'', asc ''fetch'', asc ''origin''];
          verifyLocal = [asc ''git'', asc ''rev-parse'', asc ''--verify'', branchName];
          verifyRemote = [asc ''git'', asc ''rev-parse'', asc ''--verify'',
                          asc ''origin/'' @ branchName];
          w1 = log_msg e Log_fetching w
      in case spawnSync e fetch gitRoot of
           SpawnThrew \<Rightarrow> (Inl (Spawn_threw fetch), w1)
         | Exited fetchCode fetchOut fetchErr \<Rightarrow>
         (case spawnSync e verifyLocal gitRoot of
            SpawnThrew \<Rightarrow> (Inl (Spawn_threw verifyLocal), w1)
          | Exited localCode localOut localErr \<Rightarrow>
          (case spawnSync e verifyRemote gitRoot of
             SpawnThrew \<Rightarrow> (Inl (Spawn_threw verifyRemote), w1)
           | Exited remoteCode remoteOut remoteErr \<Rightarrow>
             (let (line, add) =
                    (if localCode = 0 then
                       (Log_worktree_existing_branch branchName,
                        [asc ''git'', asc ''worktree'', asc ''add'', wtPath, branchName])
                     else if remoteCode = 0 then
                       (Log_worktree_tracking_remote branchName,
                        [asc ''git'', asc ''worktree'', asc ''add'', asc ''--track'', asc ''-b'',
                         branchName, wtPath, asc ''origin/'' @ branchName])
                     else
                       (Log_worktree_new_branch branchName baseBranch,
                        [asc ''git'', asc ''worktree'', asc ''add'', asc ''-b'', branchName,
                         wtPath, asc ''origin/'' @ baseBranch]));
                  w2 = log_msg e line w1
              in case spawnSync e add gitRoot of
                   SpawnThrew \<Rightarrow> (Inl (Spawn_threw add), w2)
                 | Exited code out err \<Rightarrow>
                     if code \<noteq> 0 then
                       (Inr \<lparr> success = False, result_worktreePath = None,
                              result_error = Some err \<rparr>,
                        logError e (Error_worktree_add_failed err) w2)
                     else
                       (Inr \<lparr> success = True, result_worktreePath = Some wtPath,
                              result_error = None \<rparr>,
                        log_msg e (Log_worktree_created wtPath) w2)))))"

text \<open>
  \<^verbatim>\<open>createWorktree\<close>: the git root, the directory of the worktrees beside the repository
  (made when it is not there; \<^verbatim>\<open>mkdirSync\<close> may throw), the path of the worktree, the
  early return when it exists, then the rest above. A directory just made exists.
\<close>

definition createWorktree ::
  "env \<Rightarrow> jsstring \<Rightarrow> jsstring \<Rightarrow> jsstring \<Rightarrow> world \<Rightarrow> (thrown + worktreeResult) \<times> world" where
  "createWorktree e dir branchName baseBranch w =
     (if \<not> truthyStr (getGitRoot e dir) then
        (Inr \<lparr> success = False, result_worktreePath = None,
               result_error = Some (asc ''Not a git repository'') \<rparr>, w)
      else
        (let gitRoot = (case getGitRoot e dir of Some found \<Rightarrow> found | None \<Rightarrow> []);
             repoName = basename e gitRoot;
             worktreesDir = pathJoin e [gitRoot, asc ''..'', repoName @ asc ''-worktrees''];
             missing = (\<not> existsSync e worktreesDir)
         in if missing \<and> \<not> mkdirSync e worktreesDir then (Inl (Mkdir_threw worktreesDir), w)
            else
              (let dirName = sanitizeBranch branchName;
                   wtPath = pathJoin e [worktreesDir, dirName]
               in if existsSync e wtPath \<or> (missing \<and> wtPath = worktreesDir) then
                    (Inr \<lparr> success = True, result_worktreePath = Some wtPath,
                           result_error = None \<rparr>,
                     log_msg e (Log_worktree_exists wtPath) w)
                  else addWorktree e gitRoot wtPath branchName baseBranch w)))"

subsection \<open>\<^verbatim>\<open>createSession\<close>\<close>

record createParams =
  p_sessionId :: jsstring
  p_agentId :: jsstring
  p_agentName :: jsstring
  p_command :: jsstring
  p_cwd :: jsstring
  p_nodeId :: jsstring
  p_customName :: "jsstring option"
  p_customColor :: "jsstring option"
  p_ticketId :: "jsstring option"
  p_ticketTitle :: "jsstring option"
  p_ticketUrl :: "jsstring option"
  p_branchName :: "jsstring option"
  p_baseBranch :: "jsstring option"
  p_createWorktreeFlag :: "bool option"
  p_ticketPromptTemplate :: "jsstring option"

text \<open>\<^verbatim>\<open>if (createWorktreeFlag && branchName && baseBranch)\<close>.\<close>

definition worktreeRequested :: "createParams \<Rightarrow> bool" where
  "worktreeRequested p =
     (p_createWorktreeFlag p = Some True \<and> truthyStr (p_branchName p) \<and> truthyStr (p_baseBranch p))"

text \<open>
  The call \<^verbatim>\<open>createWorktree({ cwd: originalCwd, branchName, baseBranch })\<close> and the test
  \<^verbatim>\<open>result.success && result.worktreePath\<close> of its result.
\<close>

definition callCreateWorktree :: "env \<Rightarrow> createParams \<Rightarrow> world \<Rightarrow> (thrown + worktreeResult) \<times> world" where
  "callCreateWorktree e p w =
     createWorktree e (p_cwd p)
       (case p_branchName p of Some b \<Rightarrow> b | None \<Rightarrow> [])
       (case p_baseBranch p of Some b \<Rightarrow> b | None \<Rightarrow> [])
       w"

definition usable :: "worktreeResult \<Rightarrow> bool" where
  "usable result = (success result \<and> truthyStr (result_worktreePath result))"

text \<open>
  The first part of \<^verbatim>\<open>createSession\<close>: the working directory, the worktree path and the
  branch taken from the worktree, with the line written to the console. An exception of
  \<^verbatim>\<open>createWorktree\<close> is not caught and ends \<^verbatim>\<open>createSession\<close>.
\<close>

definition resolveWorkingDir ::
  "env \<Rightarrow> createParams \<Rightarrow> world
     \<Rightarrow> (thrown + jsstring \<times> jsstring option \<times> jsstring option) \<times> world" where
  "resolveWorkingDir e p w =
     (let originalCwd = p_cwd p
      in if worktreeRequested p then
           (case callCreateWorktree e p w of
              (Inl ex, w1) \<Rightarrow> (Inl ex, w1)
            | (Inr result, w1) \<Rightarrow>
                if usable result
                then (case result_worktreePath result of
                        Some path \<Rightarrow> (Inr (path, Some path, p_branchName p),
                                      log_msg e (Log_using_worktree path) w1)
                      | None \<Rightarrow> (Inr (originalCwd, None, None), w1))
                else (Inr (originalCwd, None, None),
                      logError e (Error_failed_worktree (result_error result)) w1))
         else (Inr (originalCwd, None, None), w))"

text \<open>
  The rest: the branch of the working directory when the worktree gave none, the shell,
  the session object, \<^verbatim>\<open>sessions.set\<close>, the decay interval. The result is what
  \<^verbatim>\<open>createSession\<close> returns, \<^verbatim>\<open>{ session, cwd, gitBranch }\<close>, or the exception that ended
  it, with the world after it. The writes to the terminal that \<^verbatim>\<open>setTimeout\<close> delays (the
  launch command, the ticket prompt) change neither the registry nor the session and are
  left out.
\<close>

definition createSession ::
  "env \<Rightarrow> createParams \<Rightarrow> world
     \<Rightarrow> (thrown + session \<times> jsstring \<times> jsstring option) \<times> world" where
  "createSession e p w =
     (case resolveWorkingDir e p w of
        (Inl ex, w1) \<Rightarrow> (Inl ex, w1)
      | (Inr (workingDir, worktree, branch0), w1) \<Rightarrow>
     (let branch = (if \<not> truthyStr branch0 then getGitBranch e workingDir else branch0);
          ptyProcess = spawnPty e workingDir;
          session = \<lparr> pty = Some ptyProcess,
                      agentId = p_agentId p,
                      agentName = p_agentName p,
                      command = p_command p,
                      cwd = workingDir,
                      gitBranch = orUndefined branch,
                      worktreePath = worktree,
                      createdAt = isoNow e,
                      clients = [],
                      outputBuffer = [],
                      status = Starting,
                      lastOutputTime = dateNow e,
                      lastInputTime = 0,
                      recentOutputSize = 0,
                      customName = p_customName p,
                      customColor = p_customColor p,
                      sessionNotes = None,
                      nodeId = p_nodeId p,
                      isRestored = False,
                      metrics = None,
                      ticketId = p_ticketId p,
                      ticketTitle = p_ticketTitle p,
                      ticketUrl = p_ticketUrl p \<rparr>;
          w2 = w1\<lparr> spawned := spawned w1 @ [(ptyProcess, workingDir)],
                     sessions := AList.update (p_sessionId p) session (sessions w1),
                     intervals := intervals w1 @ [p_sessionId p] \<rparr>
      in (Inr (session, workingDir, orUndefined branch),
          log_msg e (Log_created (p_sessionId p)) w2)))"

subsection \<open>The restart route and \<^verbatim>\<open>deleteSession\<close>\<close>

datatype apiError = NotFound | AlreadyRunning

fun httpStatus :: "apiError \<Rightarrow> nat" where
  "httpStatus NotFound = 404"
| "httpStatus AlreadyRunning = 400"

text \<open>
  \<^verbatim>\<open>POST /sessions/:sessionId/restart\<close>: the two early returns, then the shell spawned in
  the directory of the session, the four fields set on the session object, the interval.
\<close>

definition restartSession :: "env \<Rightarrow> jsstring \<Rightarrow> world \<Rightarrow> (apiError + unit) \<times> world" where
  "restartSession e sessionId w =
     (case map_of (sessions w) sessionId of
        None \<Rightarrow> (Inl NotFound, w)
      | Some s \<Rightarrow>
          if pty s \<noteq> None then (Inl AlreadyRunning, w)
          else
            (let ptyProcess = spawnPty e (cwd s);
                 s' = s\<lparr> pty := Some ptyProcess,
                          isRestored := False,
                          status := Starting,
                          lastOutputTime := dateNow e \<rparr>;
                 w1 = w\<lparr> spawned := spawned w @ [(ptyProcess, cwd s)],
                          sessions := AList.update sessionId s' (sessions w),
                          intervals := intervals w @ [sessionId] \<rparr>
             in (Inr (), log_msg e (Log_restarted sessionId) w1)))"

text \<open>\<^verbatim>\<open>deleteSession\<close>; killing the shell does not show in the world.\<close>

definition deleteSession :: "env \<Rightarrow> jsstring \<Rightarrow> world \<Rightarrow> bool \<times> world" where
  "deleteSession e sessionId w =
     (case map_of (sessions w) sessionId of
        None \<Rightarrow> (False, w)
      | Some s \<Rightarrow>
          (True, log_msg e (Log_killed sessionId)
                   (w\<lparr> sessions := AList.delete sessionId (sessions w) \<rparr>)))"

subsection \<open>\<^verbatim>\<open>restoreSessions\<close>\<close>

text \<open>The session object built for one node of the state document.\<close>

definition placeholder :: "env \<Rightarrow> persistedNode \<Rightarrow> session" where
  "placeholder e node =
     (let buffer = loadBuffer e (node_sessionId node);
          branch = getGitBranch e (node_cwd node)
      in \<lparr> pty = None,
           agentId = node_agentId node,
           agentName = node_agentName node,
           command = node_command node,
           cwd = node_cwd node,
           gitBranch = orUndefined branch,
           worktreePath = None,
           createdAt = node_createdAt node,
           clients = [],
           outputBuffer = buffer,
           status = Disconnected,
           lastOutputTime = 0,
           lastInputTime = 0,
           recentOutputSize = 0,
           customName = node_customName node,
           customColor = node_customColor node,
           sessionNotes = node_notes node,
           nodeId = node_nodeId node,
           isRestored = True,
           metrics = None,
           ticketId = None,
           ticketTitle = None,
           ticketUrl = None \<rparr>)"

definition restoreNode :: "env \<Rightarrow> world \<Rightarrow> persistedNode \<Rightarrow> world" where
  "restoreNode e w node =
     log_msg e (Log_restored (node_sessionId node))
       (w\<lparr> sessions := AList.update (node_sessionId node) (placeholder e node) (sessions w) \<rparr>)"

text \<open>\<open>doc\<close> is what \<^verbatim>\<open>loadState()\<close> returned; the loop is \<^verbatim>\<open>for (const node of state.nodes)\<close>.\<close>

definition restoreSessions :: "env \<Rightarrow> persistedState \<Rightarrow> world \<Rightarrow> world" where
  "restoreSessions e doc w =
     foldl (restoreNode e) (log_msg e (Log_found (length (nodes doc))) w) (nodes doc)"

subsection \<open>The read routes\<close>

text \<open>
  \<^verbatim>\<open>GET /sessions\<close>, the body of the \<^verbatim>\<open>map\<close> for one entry of the registry: the status is
  recomputed, and a claude session whose cache entry is missing or older than the TTL is
  scanned. The row of the response is a projection of the session as it is left.
\<close>

type_synonym metricsCache = "jsstring \<rightharpoonup> claudeMetrics \<times> int"

definition METRICS_CACHE_TTL :: int where
  "METRICS_CACHE_TTL = 2000"

definition refreshEntry ::
  "classifier \<Rightarrow> jsonParse \<Rightarrow> parseFloatFn \<Rightarrow> int \<Rightarrow> jsstring \<Rightarrow> session \<Rightarrow> metricsCache
     \<Rightarrow> session \<times> metricsCache" where
  "refreshEntry detect parse toFloat now sid s cache =
     (let s1 = s\<lparr> status := detect now s \<rparr>
      in if agentId s1 = asc ''claude'' then
           (if (case cache sid of None \<Rightarrow> True | Some (m, stamp) \<Rightarrow> now - stamp > METRICS_CACHE_TTL)
            then (case scanBufferForMetrics parse toFloat s1 of
                    Some scanned \<Rightarrow> (s1\<lparr> metrics := Some scanned \<rparr>, cache(sid \<mapsto> (scanned, now)))
                  | None \<Rightarrow> (s1, cache))
            else (s1, cache))
         else (s1, cache))"

fun refreshAll ::
  "classifier \<Rightarrow> jsonParse \<Rightarrow> parseFloatFn \<Rightarrow> int \<Rightarrow> registry \<Rightarrow> metricsCache
     \<Rightarrow> registry \<times> metricsCache" where
  "refreshAll detect parse toFloat now [] cache = ([], cache)"
| "refreshAll detect parse toFloat now ((sid, s) # rest) cache =
     (let (s', cache1) = refreshEntry detect parse toFloat now sid s cache;
          (rest', cache2) = refreshAll detect parse toFloat now rest cache1
      in ((sid, s') # rest', cache2))"

definition getSessions ::
  "classifier \<Rightarrow> jsonParse \<Rightarrow> parseFloatFn \<Rightarrow> int \<Rightarrow> world \<Rightarrow> metricsCache
     \<Rightarrow> registry \<times> world \<times> metricsCache" where
  "getSessions detect parse toFloat now w cache =
     (let (entries, cache') = refreshAll detect parse toFloat now (sessions w) cache
      in (entries, w\<lparr> sessions := entries \<rparr>, cache'))"

text \<open>The earlier revision of the route, kept in the same file: no cache, every request scans.\<close>

definition refreshEntryNoCache ::
  "classifier \<Rightarrow> jsonParse \<Rightarrow> parseFloatFn \<Rightarrow> int \<Rightarrow> session \<Rightarrow> session" where
  "refreshEntryNoCache detect parse toFloat now s =
     (let s1 = s\<lparr> status := detect now s \<rparr>
      in if agentId s1 = asc ''claude'' then
           (case scanBufferForMetrics parse toFloat s1 of
              Some scanned \<Rightarrow> s1\<lparr> metrics := Some scanned \<rparr>
            | None \<Rightarrow> s1)
         else s1)"

text \<open>
  \<^verbatim>\<open>GET /state\<close>: a row for every node of the state document, then
  \<^verbatim>\<open>filter(n => n.isAlive)\<close>.
\<close>

record stateRow =
  row_node :: persistedNode
  row_status :: agentStatus
  row_isAlive :: bool
  row_isRestored :: "bool option"

definition stateRowOf :: "classifier \<Rightarrow> int \<Rightarrow> world \<Rightarrow> persistedNode \<Rightarrow> stateRow" where
  "stateRowOf detect now w node =
     (let found = map_of (sessions w) (node_sessionId node)
      in \<lparr> row_node = node,
           row_status = (case found of Some s \<Rightarrow> detect now s | None \<Rightarrow> Disconnected),
           row_isAlive = (found \<noteq> None),
           row_isRestored = map_option isRestored found \<rparr>)"

definition getState :: "classifier \<Rightarrow> int \<Rightarrow> persistedState \<Rightarrow> world \<Rightarrow> stateRow list" where
  "getState detect now doc w = filter row_isAlive (map (stateRowOf detect now w) (nodes doc))"

section \<open>The status classifier\<close>






section \<open>Concrete inputs\<close>

text \<open>
  The values of \<^verbatim>\<open>JSON.parse\<close> at the payloads used in the examples, and a \<^verbatim>\<open>parseFloat\<close>
  and a classifier to run them with.
\<close>

definition exampleParse :: jsonParse where
  \<open>exampleParse text =
     (if text = asc ''{"m":"Opus"}'' then Some (JObj [(asc ''m'', JStr (asc ''Opus''))])
      else if text = asc ''{"c":"2"}'' then Some (JObj [(asc ''c'', JStr (asc ''2''))])
      else if text = asc ''{"x":1}'' then Some (JObj [(asc ''x'', JNum (Finite 1))])
      else None)\<close>

definition exampleFloat :: parseFloatFn where
  "exampleFloat v = (if v = JStr (asc ''2'') then Finite 2 else NaN)"

text \<open>
  A chunk with three tags, oldest first: one with a model, one with a cost given as a
  string, one with neither field; and the snapshot of the second.
\<close>

definition exampleData :: jsstring where
  \<open>exampleData = asc ''[OPENUI:{"m":"Opus"}] [OPENUI:{"c":"2"}] [OPENUI:{"x":1}]''\<close>

definition exampleSnapshot :: claudeMetrics where
  "exampleSnapshot =
     \<lparr> model = JStr (asc ''Claude''), cost = JNum (Finite 2),
       linesAdded = JNum (Finite 0), linesRemoved = JNum (Finite 0),
       contextPercent = JNum (Finite 0), inputTokens = JNum (Finite 0),
       outputTokens = JNum (Finite 0), state = JUndefined \<rparr>"

definition exampleDetect :: classifier where
  "exampleDetect now s = (if 0 < recentOutputSize s then Running else Idle)"

definition exampleClients :: "client list" where
  "exampleClients = [\<lparr> clientId = 1, readyState = 1 \<rparr>, \<lparr> clientId = 2, readyState = 3 \<rparr>]"

definition exampleSession :: session where
  "exampleSession =
     \<lparr> pty = Some 7,
       agentId = asc ''claude'',
       agentName = asc ''Claude Code'',
       command = asc ''claude'',
       cwd = asc ''/repo'',
       gitBranch = Some (asc ''main''),
       worktreePath = None,
       createdAt = asc ''2026-01-01T00:00:00.000Z'',
       clients = exampleClients,
       outputBuffer = [asc ''a'', asc ''b''],
       status = Running,
       lastOutputTime = 100,
       lastInputTime = 0,
       recentOutputSize = 30,
       customName = None,
       customColor = None,
       sessionNotes = None,
       nodeId = asc ''node-1'',
       isRestored = False,
       metrics = None,
       ticketId = None,
       ticketTitle = None,
       ticketUrl = None \<rparr>"

definition exampleNode :: persistedNode where
  "exampleNode =
     \<lparr> node_nodeId = asc ''node-1'',
       node_sessionId = asc ''s1'',
       node_agentId = asc ''claude'',
       node_agentName = asc ''Claude Code'',
       node_command = asc ''claude'',
       node_cwd = asc ''/repo'',
       node_createdAt = asc ''2026-01-01T00:00:00.000Z'',
       node_customName = None,
       node_customColor = None,
       node_notes = Some (asc ''n''),
       node_position = (0, 0) \<rparr>"

text \<open>
  An environment in which \<^verbatim>\<open>/repo\<close> is a git repository on the branch \<^verbatim>\<open>main\<close>, the
  directory of the worktrees can be made, and git fetches but fails every other command
  with exit code 128.
\<close>

definition exampleEnv :: "bool \<Rightarrow> env" where
  "exampleEnv quiet =
     \<lparr> QUIET = quiet,
       getGitRoot = (\<lambda>dir. if dir = asc ''/repo'' then Some (asc ''/repo'') else None),
       getGitBranch = (\<lambda>dir. if dir = asc ''/repo'' then Some (asc ''main'') else None),
       basename = (\<lambda>path. asc ''repo''),
       pathJoin = (\<lambda>parts. if length parts = 3 then asc ''/repo-worktrees''
                            else asc ''/repo-worktrees/feature''),
       existsSync = (\<lambda>path. False),
       mkdirSync = (\<lambda>path. True),
       spawnSync = (\<lambda>args dir. if args = [asc ''git'', asc ''fetch'', asc ''origin'']
                                then Exited 0 [] [] else Exited 128 [] (asc ''fatal'')),
       spawnPty = (\<lambda>dir. 8),
       loadBuffer = (\<lambda>sid. if sid = asc ''s1'' then [asc ''x'', asc ''y''] else []),
       dateNow = 500,
       isoNow = asc ''2026-01-02T00:00:00.000Z'' \<rparr>"

definition exampleParams :: createParams where
  "exampleParams =
     \<lparr> p_sessionId = asc ''s2'',
       p_agentId = asc ''claude'',
       p_agentName = asc ''Claude Code'',
       p_command = asc ''claude'',
       p_cwd = asc ''/repo'',
       p_nodeId = asc ''node-2'',
       p_customName = None,
       p_customColor = None,
       p_ticketId = None,
       p_ticketTitle = None,
       p_ticketUrl = None,
       p_branchName = Some (asc ''feature''),
       p_baseBranch = Some (asc ''main''),
       p_createWorktreeFlag = Some True,
       p_ticketPromptTemplate = None \<rparr>"

definition emptyWorld :: world where
  "emptyWorld = \<lparr> sessions = [], spawned = [], intervals = [], console = [] \<rparr>"

definition restoredWorld :: world where
  "restoredWorld =
     \<lparr> sessions = [(asc ''s1'', placeholder (exampleEnv False) exampleNode)], spawned = [],
       intervals = [], console = [] \<rparr>"

definition exampleWorld :: world where
  "exampleWorld = \<lparr> sessions = [(asc ''s7'', exampleSession)], spawned = [(7, asc ''/repo'')],
                    intervals = [asc ''s7''], console = [] \<rparr>"

section \<open>Properties\<close>

subsection \<open>A session as \<^verbatim>\<open>createSession\<close> returns it\<close>

lemma createSession_returns:
  assumes "fst (createSession e p w) = Inr (session, dir, branch)"
  shows "\<exists>worktree branch0 w1.
           resolveWorkingDir e p w = (Inr (dir, worktree, branch0), w1)
         \<and> session = \<lparr> pty = Some (spawnPty e dir),
                      agentId = p_agentId p,
                      agentName = p_agentName p,
                      command = p_command p,
                      cwd = dir,
                      gitBranch = branch,
                      worktreePath = worktree,
                      createdAt = isoNow e,
                      clients = [],
                      outputBuffer = [],
                      status = Starting,
                      lastOutputTime = dateNow e,
                      lastInputTime = 0,
                      recentOutputSize = 0,
                      customName = p_customName p,
                      customColor = p_customColor p,
                      sessionNotes = None,
                      nodeId = p_nodeId p,
                      isRestored = False,
                      metrics = None,
                      ticketId = p_ticketId p,
                      ticketTitle = p_ticketTitle p,
                      ticketUrl = p_ticketUrl p \<rparr>
         \<and> snd (createSession e p w) =
               log_msg e (Log_created (p_sessionId p))
                 (w1\<lparr> spawned := spawned w1 @ [(spawnPty e dir, dir)],
                      sessions := AList.update (p_sessionId p) session (sessions w1),
                      intervals := intervals w1 @ [p_sessionId p] \<rparr>)"
proof (cases "resolveWorkingDir e p w")
  case (Pair r w1)
  show ?thesis
  proof (cases r)
    case (Inl ex)
    with Pair assms show ?thesis by (simp add: createSession_def)
  next
    case (Inr triple)
    obtain d wt b0 where triple: "triple = (d, wt, b0)" by (cases triple)
    with Pair Inr assms show ?thesis
      by (auto simp: createSession_def Let_def)
  qed
qed

lemma createSession_fresh:
  assumes "fst (createSession e p w) = Inr (session, dir, branch)"
  shows "outputBuffer session = []" and "recentOutputSize session = 0"
    and "status session = Starting" and "pty session = Some (spawnPty e dir)"
    and "isRestored session = False" and "cwd session = dir"
  using createSession_returns [OF assms] by auto

subsection \<open>The output history\<close>


lemma pushOutput_mostRecent:
  "length buf \<le> n \<Longrightarrow> pushOutput n buf d = mostRecent n (buf @ [d])"
proof -
  assume le: "length buf \<le> n"
  have tl: "tl (buf @ [d]) = drop 1 (buf @ [d])"
    by (metis One_nat_def drop0 drop_Suc)
  show ?thesis
  proof (cases "length buf = n")
    case True
    then show ?thesis
      unfolding pushOutput_def mostRecent_def Let_def tl by simp
  next
    case False
    with le have "length buf < n" by simp
    then show ?thesis
      by (simp add: pushOutput_def mostRecent_def Let_def)
  qed
qed

lemma mostRecent_append:
  "mostRecent n (mostRecent n xs @ ys) = mostRecent n (xs @ ys)"
  by (cases "length xs \<le> n") (auto simp: mostRecent_def add.commute)

lemma length_mostRecent: "length (mostRecent n xs) \<le> n"
  by (simp add: mostRecent_def)

lemma mostRecent_id: "length xs \<le> n \<Longrightarrow> mostRecent n xs = xs"
  by (simp add: mostRecent_def)

lemma outputBuffer_onData:
  "outputBuffer (fst (onData detect parse toFloat agent now s d)) =
     pushOutput MAX_BUFFER_SIZE (outputBuffer s) d"
  by (simp add: onData_def Let_def split: option.splits)

lemma outputBuffer_onDataRestart:
  "outputBuffer (fst (onDataRestart now s d)) = pushOutput MAX_BUFFER_SIZE (outputBuffer s) d"
  by (simp add: onDataRestart_def Let_def MAX_BUFFER_SIZE_def)

lemma outputBuffer_decayTick: "outputBuffer (fst (decayTick r s)) = outputBuffer s"
  by (simp add: decayTick_def)

lemma outputBuffer_step:
  "length (outputBuffer s) \<le> MAX_BUFFER_SIZE \<Longrightarrow>
   outputBuffer (step detect parse toFloat agent s e) =
     mostRecent MAX_BUFFER_SIZE (outputBuffer s @ chunkOf e)"
  by (cases e)
     (simp_all add: outputBuffer_onData outputBuffer_onDataRestart outputBuffer_decayTick
        pushOutput_mostRecent mostRecent_id)

lemma outputBuffer_run:
  "length (outputBuffer s) \<le> MAX_BUFFER_SIZE \<Longrightarrow>
   outputBuffer (run detect parse toFloat agent s es) =
     mostRecent MAX_BUFFER_SIZE (outputBuffer s @ emitted es)"
proof (induction es arbitrary: s)
  case Nil
  then show ?case by (simp add: run_def emitted_def mostRecent_id)
next
  case (Cons e es)
  let ?s = "step detect parse toFloat agent s e"
  have b: "length (outputBuffer ?s) \<le> MAX_BUFFER_SIZE"
    using Cons.prems by (simp add: outputBuffer_step length_mostRecent)
  have "outputBuffer (run detect parse toFloat agent s (e # es)) =
        outputBuffer (run detect parse toFloat agent ?s es)"
    by (simp add: run_def)
  also have "\<dots> = mostRecent MAX_BUFFER_SIZE (outputBuffer ?s @ emitted es)"
    by (rule Cons.IH [OF b])
  also have "\<dots> = mostRecent MAX_BUFFER_SIZE (outputBuffer s @ emitted (e # es))"
    using Cons.prems by (simp add: outputBuffer_step mostRecent_append emitted_def)
  finally show ?case .
qed

lemma trace_prefixes:
  "set (trace detect parse toFloat agent s es) =
     (\<lambda>n. run detect parse toFloat agent s (take n es)) ` {..length es}"
proof (induction es arbitrary: s)
  case Nil
  then show ?case by (simp add: run_def)
next
  case (Cons e es)
  have "{..length (e # es)} = insert 0 (Suc ` {..length es})"
    by (simp add: atMost_Suc_eq_insert_0)
  then show ?case
    by (simp add: Cons.IH run_def image_image)
qed

lemma mostRecent_drop_old:
  "n \<le> length ys \<Longrightarrow> mostRecent n (xs @ ys) = mostRecent n ys"
  by (simp add: mostRecent_def)

text \<open>
  Claim C1. Whatever chunks and ticks a session goes through, starting from a history
  within the bound, its output history never holds more than 1000 chunks; a chunk that
  would exceed the bound pushes the oldest one out, so the history is the most recent 1000
  of everything it was given, in the order of emission, and after more than 1000 chunks
  it is exactly the last 1000 emitted. A session is created with an empty history.
\<close>

theorem output_history_bounded_fifo:
  assumes "length (outputBuffer s) \<le> MAX_BUFFER_SIZE"
  shows "(\<forall>s' \<in> set (trace detect parse toFloat agent s es).
            length (outputBuffer s') \<le> MAX_BUFFER_SIZE)
       \<and> outputBuffer (run detect parse toFloat agent s es) =
            mostRecent MAX_BUFFER_SIZE (outputBuffer s @ emitted es)
       \<and> (MAX_BUFFER_SIZE < length (emitted es) \<longrightarrow>
            outputBuffer (run detect parse toFloat agent s es) =
              drop (length (emitted es) - 1000) (emitted es))
       \<and> (\<forall>session dir branch.
             fst (createSession e p w) = Inr (session, dir, branch) \<longrightarrow> outputBuffer session = [])"
proof (intro conjI ballI impI allI)
  fix s' assume "s' \<in> set (trace detect parse toFloat agent s es)"
  then obtain n where "s' = run detect parse toFloat agent s (take n es)"
    by (auto simp: trace_prefixes)
  then show "length (outputBuffer s') \<le> MAX_BUFFER_SIZE"
    using assms by (simp add: outputBuffer_run length_mostRecent)
next
  show "outputBuffer (run detect parse toFloat agent s es) =
          mostRecent MAX_BUFFER_SIZE (outputBuffer s @ emitted es)"
    using assms by (rule outputBuffer_run)
next
  assume "MAX_BUFFER_SIZE < length (emitted es)"
  then have "mostRecent MAX_BUFFER_SIZE (outputBuffer s @ emitted es) =
             mostRecent MAX_BUFFER_SIZE (emitted es)"
    by (simp add: mostRecent_drop_old)
  then show "outputBuffer (run detect parse toFloat agent s es) =
          drop (length (emitted es) - 1000) (emitted es)"
    using assms by (simp add: outputBuffer_run mostRecent_def MAX_BUFFER_SIZE_def)
next
  fix session dir branch
  assume "fst (createSession e p w) = Inr (session, dir, branch)"
  then show "outputBuffer session = []"
    by (rule createSession_fresh)
qed

lemma emitted_replicate:
  "emitted (replicate n (RestartChunk now d)) = replicate n d"
  by (induction n) (simp_all add: emitted_def)

theorem output_history_bounded_fifo_witness:
  "length (outputBuffer exampleSession) \<le> MAX_BUFFER_SIZE
   \<and> outputBuffer exampleSession = [asc ''a'', asc ''b'']
   \<and> outputBuffer (run exampleDetect exampleParse exampleFloat (asc ''claude'') exampleSession
        (replicate 1000 (RestartChunk 0 (asc ''z'')))) = replicate 1000 (asc ''z'')"
proof -
  have h: "length (outputBuffer exampleSession) \<le> MAX_BUFFER_SIZE"
    by (simp add: exampleSession_def MAX_BUFFER_SIZE_def)
  have "outputBuffer (run exampleDetect exampleParse exampleFloat (asc ''claude'') exampleSession
          (replicate 1000 (RestartChunk 0 (asc ''z'')))) =
        mostRecent MAX_BUFFER_SIZE
          (outputBuffer exampleSession @ emitted (replicate 1000 (RestartChunk 0 (asc ''z''))))"
    using output_history_bounded_fifo [OF h] by blast
  then show ?thesis
    using h by (simp add: emitted_replicate exampleSession_def mostRecent_def MAX_BUFFER_SIZE_def)
qed

subsection \<open>The recent output counter\<close>

lemma counter_onData:
  "recentOutputSize (fst (onData detect parse toFloat agent now s d)) =
     recentOutputSize s + int (length d)"
  by (simp add: onData_def Let_def split: option.splits)

lemma counter_onDataRestart:
  "recentOutputSize (fst (onDataRestart now s d)) = recentOutputSize s + int (length d)"
  by (simp add: onDataRestart_def Let_def)

lemma counter_decayTick:
  "recentOutputSize (fst (decayTick registered s)) =
     (if registered \<and> pty s \<noteq> None then max 0 (recentOutputSize s - 50)
      else recentOutputSize s)"
  by (simp add: decayTick_def)

lemma counter_step:
  "0 \<le> recentOutputSize s \<Longrightarrow> 0 \<le> recentOutputSize (step detect parse toFloat agent s e)"
  by (cases e) (simp_all add: counter_onData counter_onDataRestart counter_decayTick)

lemma counter_trace:
  "0 \<le> recentOutputSize s \<Longrightarrow> s' \<in> set (trace detect parse toFloat agent s es) \<Longrightarrow>
   0 \<le> recentOutputSize s'"
proof (induction es arbitrary: s)
  case Nil
  then show ?case by simp
next
  case (Cons e es)
  from Cons.prems(2) consider "s' = s"
    | "s' \<in> set (trace detect parse toFloat agent (step detect parse toFloat agent s e) es)"
    by auto
  then show ?case
  proof cases
    case 1
    with Cons.prems(1) show ?thesis by simp
  next
    case 2
    with Cons.IH [OF counter_step [OF Cons.prems(1)]] show ?thesis .
  qed
qed

text \<open>
  Claim C9. A tick of the decay interval takes 50 from the recent output counter of a live
  session and stops at zero, a chunk adds its length, sessions are created and restored
  with the counter at zero; so the counter is never negative in any state a session goes
  through.
\<close>

theorem recent_output_counter_never_negative:
  assumes "0 \<le> recentOutputSize s"
  shows "(\<forall>s' \<in> set (trace detect parse toFloat agent s es). 0 \<le> recentOutputSize s')
       \<and> (pty s \<noteq> None \<longrightarrow>
            recentOutputSize (fst (decayTick True s)) = max 0 (recentOutputSize s - 50))
       \<and> recentOutputSize (fst (onData detect parse toFloat agent now s d)) =
            recentOutputSize s + int (length d)
       \<and> recentOutputSize (fst (onDataRestart now s d)) = recentOutputSize s + int (length d)
       \<and> (\<forall>session dir branch.
             fst (createSession e p w) = Inr (session, dir, branch) \<longrightarrow>
             recentOutputSize session = 0)
       \<and> recentOutputSize (placeholder e node) = 0"
proof (intro conjI ballI impI allI)
  fix s' assume "s' \<in> set (trace detect parse toFloat agent s es)"
  with assms show "0 \<le> recentOutputSize s'" by (rule counter_trace)
next
  assume "pty s \<noteq> None"
  then show "recentOutputSize (fst (decayTick True s)) = max 0 (recentOutputSize s - 50)"
    by (simp add: counter_decayTick)
next
  fix session dir branch
  assume "fst (createSession e p w) = Inr (session, dir, branch)"
  then show "recentOutputSize session = 0"
    by (rule createSession_fresh)
next
  show "recentOutputSize (placeholder e node) = 0"
    by (simp add: placeholder_def Let_def)
qed (simp_all add: counter_onData counter_onDataRestart)

theorem recent_output_counter_never_negative_witness:
  "0 \<le> recentOutputSize exampleSession
   \<and> recentOutputSize exampleSession = 30
   \<and> pty exampleSession \<noteq> None
   \<and> recentOutputSize (fst (decayTick True exampleSession)) = 0
   \<and> recentOutputSize (fst (onDataRestart 200 exampleSession (asc ''hello''))) = 35"
proof -
  have h: "0 \<le> recentOutputSize exampleSession"
    by (simp add: exampleSession_def)
  from recent_output_counter_never_negative [OF h, where es = "[]" and now = 200
      and d = "asc ''hello''"]
  have "(pty exampleSession \<noteq> None \<longrightarrow>
          recentOutputSize (fst (decayTick True exampleSession)) =
            max 0 (recentOutputSize exampleSession - 50))
      \<and> recentOutputSize (fst (onDataRestart 200 exampleSession (asc ''hello''))) =
          recentOutputSize exampleSession + int (length (asc ''hello''))"
    by blast
  then show ?thesis
    by (simp add: exampleSession_def asc_def)
qed

subsection \<open>The metrics extractor\<close>


lemma getProp_nullish: "nullish json \<Longrightarrow> getProp json k = JUndefined"
  by (cases json) simp_all

lemma tryCandidate_acceptable:
  "tryCandidate parse toFloat c =
     (if acceptable parse c then snapshotOf parse toFloat c else None)"
  by (auto simp: tryCandidate_def acceptable_def snapshotOf_def hasField_def getProp_nullish
      split: option.splits)

lemma acceptable_snapshot:
  "acceptable parse c \<Longrightarrow> \<exists>r. snapshotOf parse toFloat c = Some r"
  by (auto simp: acceptable_def snapshotOf_def split: option.splits)

lemma tryFrom_find:
  "n \<le> length ms \<Longrightarrow>
   tryFrom parse toFloat ms n =
     (case find (acceptable parse) (rev (take n ms)) of
        None \<Rightarrow> None
      | Some c \<Rightarrow> snapshotOf parse toFloat c)"
proof (induction n)
  case 0
  then show ?case by simp
next
  case (Suc n)
  then have tk: "rev (take (Suc n) ms) = ms ! n # rev (take n ms)"
    by (simp add: take_Suc_conv_app_nth)
  show ?case
  proof (cases "acceptable parse (ms ! n)")
    case True
    with acceptable_snapshot [OF True, of toFloat] show ?thesis
      unfolding tk by (auto simp: tryCandidate_acceptable)
  next
    case False
    with Suc show ?thesis
      unfolding tk by (simp add: tryCandidate_acceptable)
  qed
qed

lemma find_SomeD: "find P xs = Some x \<Longrightarrow> P x \<and> x \<in> set xs"
  by (induction xs) (auto split: if_splits)

lemma parseMetrics_find:
  "parseMetrics parse toFloat data = mostRecentAcceptable parse toFloat data"
  by (simp add: parseMetrics_def mostRecentAcceptable_def candidates_def tryFrom_find Let_def)

lemma parseMetrics_None_iff:
  "parseMetrics parse toFloat data = None \<longleftrightarrow>
     (\<forall>c \<in> set (candidates data). \<not> acceptable parse c)"
proof (cases "find (acceptable parse) (rev (candidates data))")
  case None
  moreover from None have "\<forall>c \<in> set (candidates data). \<not> acceptable parse c"
    by (simp add: find_None_iff)
  ultimately show ?thesis
    by (simp add: parseMetrics_find mostRecentAcceptable_def)
next
  case (Some c)
  then have c: "c \<in> set (candidates data)" "acceptable parse c"
    by (auto dest: find_SomeD)
  from acceptable_snapshot [OF c(2)] obtain r where "snapshotOf parse toFloat c = Some r"
    by blast
  with Some have "parseMetrics parse toFloat data = Some r"
    by (simp add: parseMetrics_find mostRecentAcceptable_def)
  with c show ?thesis by auto
qed

lemma find_rev_last:
  "find P (rev xs) = Some x \<Longrightarrow>
   \<exists>i < length xs. xs ! i = x \<and> P x \<and> (\<forall>j. i < j \<and> j < length xs \<longrightarrow> \<not> P (xs ! j))"
proof (induction xs rule: rev_induct)
  case Nil
  then show ?case by simp
next
  case (snoc y ys)
  show ?case
  proof (cases "P y")
    case True
    with snoc.prems have "x = y" by simp
    with True show ?thesis
      by (intro exI [of _ "length ys"]) auto
  next
    case False
    with snoc.prems have "find P (rev ys) = Some x" by simp
    from snoc.IH [OF this] obtain i where i: "i < length ys" "ys ! i = x" "P x"
      and later: "\<forall>j. i < j \<and> j < length ys \<longrightarrow> \<not> P (ys ! j)"
      by blast
    have "\<not> P ((ys @ [y]) ! j)" if "i < j" "j < length (ys @ [y])" for j
    proof (cases "j < length ys")
      case True
      with that later show ?thesis by (simp add: nth_append)
    next
      case False
      with that have "j = length ys" by simp
      with \<open>\<not> P y\<close> show ?thesis by simp
    qed
    with i show ?thesis
      by (intro exI [of _ i]) (simp add: nth_append)
  qed
qed

lemma parseMetrics_Some:
  assumes "parseMetrics parse toFloat data = Some r"
  shows "\<exists>i < length (candidates data).
           acceptable parse (candidates data ! i)
         \<and> snapshotOf parse toFloat (candidates data ! i) = Some r
         \<and> (\<forall>j. i < j \<and> j < length (candidates data) \<longrightarrow>
               \<not> acceptable parse (candidates data ! j))"
proof (cases "find (acceptable parse) (rev (candidates data))")
  case None
  with assms show ?thesis
    by (simp add: parseMetrics_find mostRecentAcceptable_def)
next
  case (Some c)
  with assms have r: "snapshotOf parse toFloat c = Some r"
    by (simp add: parseMetrics_find mostRecentAcceptable_def)
  from find_rev_last [OF Some] obtain i where
    "i < length (candidates data)" "candidates data ! i = c" "acceptable parse c"
    "\<forall>j. i < j \<and> j < length (candidates data) \<longrightarrow> \<not> acceptable parse (candidates data ! j)"
    by blast
  with r show ?thesis
    by (intro exI [of _ i]) simp
qed


text \<open>
  Claim C2. \<^verbatim>\<open>parseMetrics\<close> tries the candidates found in the text from the most recent
  to the least recent and returns the snapshot of the first acceptable one, a candidate
  being acceptable when its payload parses and has the field \<^verbatim>\<open>m\<close> or the field \<^verbatim>\<open>c\<close>:
  the result is the snapshot of an acceptable candidate after which no candidate is
  acceptable, and there is no result exactly when no candidate is acceptable.
\<close>

theorem parseMetrics_most_recent_acceptable:
  "parseMetrics parse toFloat data = mostRecentAcceptable parse toFloat data
   \<and> (parseMetrics parse toFloat data = None \<longleftrightarrow>
        (\<forall>c \<in> set (candidates data). \<not> acceptable parse c))
   \<and> (\<forall>r. parseMetrics parse toFloat data = Some r \<longrightarrow>
        (\<exists>i < length (candidates data).
            acceptable parse (candidates data ! i)
          \<and> snapshotOf parse toFloat (candidates data ! i) = Some r
          \<and> (\<forall>j. i < j \<and> j < length (candidates data) \<longrightarrow>
                \<not> acceptable parse (candidates data ! j))))"
  by (intro conjI allI impI)
     (rule parseMetrics_find, rule parseMetrics_None_iff, erule parseMetrics_Some)


lemma example_candidates:
  \<open>candidates exampleData =
     [asc ''[OPENUI:{"m":"Opus"}]'', asc ''[OPENUI:{"c":"2"}]'', asc ''[OPENUI:{"x":1}]'']\<close>
  by code_simp

lemma example_mostRecentAcceptable:
  "mostRecentAcceptable exampleParse exampleFloat exampleData = Some exampleSnapshot"
  unfolding mostRecentAcceptable_def example_candidates
  by (simp add: acceptable_def snapshotOf_def jsonPart_def exampleParse_def exampleFloat_def
      hasField_def metricsOf_def orElse_def asc_def exampleSnapshot_def)

theorem parseMetrics_most_recent_acceptable_witness:
  "parseMetrics exampleParse exampleFloat exampleData = Some exampleSnapshot
   \<and> length (candidates exampleData) = 3
   \<and> acceptable exampleParse (candidates exampleData ! 0)
   \<and> acceptable exampleParse (candidates exampleData ! 1)
   \<and> snapshotOf exampleParse exampleFloat (candidates exampleData ! 1) = Some exampleSnapshot"
proof -
  have "parseMetrics exampleParse exampleFloat exampleData = Some exampleSnapshot"
    using parseMetrics_most_recent_acceptable [of exampleParse exampleFloat exampleData]
    by (simp only: example_mostRecentAcceptable)
  then show ?thesis
    unfolding example_candidates
    by (simp add: acceptable_def snapshotOf_def jsonPart_def exampleParse_def exampleFloat_def
      hasField_def metricsOf_def orElse_def asc_def exampleSnapshot_def)
qed


subsection \<open>The defaults of a snapshot\<close>


lemma metricsOf_defaults:
  "model (metricsOf toFloat json) =
     (if truthy (getProp json (asc ''m'')) then getProp json (asc ''m'') else JStr (asc ''Claude''))"
  "linesAdded (metricsOf toFloat json) =
     (if truthy (getProp json (asc ''la'')) then getProp json (asc ''la'') else JNum (Finite 0))"
  "linesRemoved (metricsOf toFloat json) =
     (if truthy (getProp json (asc ''lr'')) then getProp json (asc ''lr'') else JNum (Finite 0))"
  "contextPercent (metricsOf toFloat json) =
     (if truthy (getProp json (asc ''cp'')) then getProp json (asc ''cp'') else JNum (Finite 0))"
  "inputTokens (metricsOf toFloat json) =
     (if truthy (getProp json (asc ''it'')) then getProp json (asc ''it'') else JNum (Finite 0))"
  "outputTokens (metricsOf toFloat json) =
     (if truthy (getProp json (asc ''ot'')) then getProp json (asc ''ot'') else JNum (Finite 0))"
  "state (metricsOf toFloat json) =
     (if truthy (getProp json (asc ''s'')) then getProp json (asc ''s'') else JUndefined)"
  by (simp_all add: metricsOf_def orElse_def)

lemma metricsOf_cost_number:
  "getProp json (asc ''c'') = JNum n \<Longrightarrow> cost (metricsOf toFloat json) = JNum n"
  by (simp add: metricsOf_def)

lemma metricsOf_cost_other:
  "\<forall>n. getProp json (asc ''c'') \<noteq> JNum n \<Longrightarrow>
   cost (metricsOf toFloat json) =
     (if toFloat (getProp json (asc ''c'')) = NaN \<or> toFloat (getProp json (asc ''c'')) = Finite 0
      then JNum (Finite 0) else JNum (toFloat (getProp json (asc ''c''))))"
  by (cases "getProp json (asc ''c'')") (simp_all add: metricsOf_def orElse_def)

lemma metricsOf_cost_is_number: "\<exists>n. cost (metricsOf toFloat json) = JNum n"
  by (cases "getProp json (asc ''c'')") (simp_all add: metricsOf_def orElse_def)

lemma falsy_number: "\<not> truthy (JNum n) \<longleftrightarrow> n = NaN \<or> n = Finite 0"
  by auto

lemma metricsOf_cost_falsy:
  assumes falsy: "\<not> truthy (getProp json (asc ''c''))"
    and noNaN: "getProp json (asc ''c'') \<noteq> JNum NaN"
    and pf: "parseFloatOfFalsy toFloat"
  shows "cost (metricsOf toFloat json) = JNum (Finite 0)"
proof (cases "\<exists>n. getProp json (asc ''c'') = JNum n")
  case True
  then obtain n where n: "getProp json (asc ''c'') = JNum n" by blast
  with falsy noNaN have "n = Finite 0" by simp
  with n show ?thesis by (simp add: metricsOf_cost_number)
next
  case False
  then have nn: "\<forall>n. getProp json (asc ''c'') \<noteq> JNum n" by simp
  with falsy pf have "toFloat (getProp json (asc ''c'')) = NaN"
    by (simp add: parseFloatOfFalsy_def)
  with nn show ?thesis by (simp add: metricsOf_cost_other)
qed

lemma truthy_defined: "truthy v \<Longrightarrow> v \<noteq> JUndefined"
  by auto

lemma metricsOf_defined:
  "model (metricsOf toFloat json) \<noteq> JUndefined"
  "linesAdded (metricsOf toFloat json) \<noteq> JUndefined"
  "linesRemoved (metricsOf toFloat json) \<noteq> JUndefined"
  "contextPercent (metricsOf toFloat json) \<noteq> JUndefined"
  "inputTokens (metricsOf toFloat json) \<noteq> JUndefined"
  "outputTokens (metricsOf toFloat json) \<noteq> JUndefined"
  by (auto simp: metricsOf_defaults dest: truthy_defined)

lemma parseMetrics_accepted:
  assumes "parseMetrics parse toFloat data = Some r"
  shows "\<exists>c json. c \<in> set (candidates data) \<and> parse (jsonPart c) = Some json
           \<and> (hasField json (asc ''m'') \<or> hasField json (asc ''c''))
           \<and> r = metricsOf toFloat json"
proof -
  from parseMetrics_Some [OF assms] obtain i where i: "i < length (candidates data)"
    and acc: "acceptable parse (candidates data ! i)"
    and snap: "snapshotOf parse toFloat (candidates data ! i) = Some r"
    by blast
  from snap obtain json where json: "parse (jsonPart (candidates data ! i)) = Some json"
    and r: "r = metricsOf toFloat json"
    by (auto simp: snapshotOf_def)
  from acc json have "hasField json (asc ''m'') \<or> hasField json (asc ''c'')"
    by (simp add: acceptable_def)
  with i json r show ?thesis
    by (intro exI [of _ "candidates data ! i"] exI [of _ json]) simp
qed

text \<open>
  Claim C10. In the snapshot of an accepted candidate every field that is missing or falsy
  in the payload has its default: \<^verbatim>\<open>"Claude"\<close> for the model, 0 for the cost (a number is
  kept, a string goes through \<^verbatim>\<open>parseFloat\<close>), 0 for the five counters, absent for the
  state. So the model and the six numeric fields of an accepted snapshot are never
  undefined, and the cost is a number.
\<close>

theorem accepted_snapshot_defaults:
  assumes accepted: "parseMetrics parse toFloat data = Some r"
    and parseFloat_falsy: "parseFloatOfFalsy toFloat"
    and parse_no_NaN: "parseWithoutNaN parse"
  shows "\<exists>c json. c \<in> set (candidates data) \<and> parse (jsonPart c) = Some json
     \<and> model r = (if truthy (getProp json (asc ''m'')) then getProp json (asc ''m'')
                   else JStr (asc ''Claude''))
     \<and> (\<not> truthy (getProp json (asc ''c'')) \<longrightarrow> cost r = JNum (Finite 0))
     \<and> (\<forall>n. getProp json (asc ''c'') = JNum n \<longrightarrow> cost r = JNum n)
     \<and> (\<forall>s. getProp json (asc ''c'') = JStr s \<longrightarrow>
           cost r = orElse (JNum (toFloat (JStr s))) (JNum (Finite 0)))
     \<and> linesAdded r = (if truthy (getProp json (asc ''la'')) then getProp json (asc ''la'')
                        else JNum (Finite 0))
     \<and> linesRemoved r = (if truthy (getProp json (asc ''lr'')) then getProp json (asc ''lr'')
                          else JNum (Finite 0))
     \<and> contextPercent r = (if truthy (getProp json (asc ''cp'')) then getProp json (asc ''cp'')
                            else JNum (Finite 0))
     \<and> inputTokens r = (if truthy (getProp json (asc ''it'')) then getProp json (asc ''it'')
                         else JNum (Finite 0))
     \<and> outputTokens r = (if truthy (getProp json (asc ''ot'')) then getProp json (asc ''ot'')
                          else JNum (Finite 0))
     \<and> state r = (if truthy (getProp json (asc ''s'')) then getProp json (asc ''s'')
                   else JUndefined)
     \<and> model r \<noteq> JUndefined \<and> (\<exists>n. cost r = JNum n)
     \<and> linesAdded r \<noteq> JUndefined \<and> linesRemoved r \<noteq> JUndefined
     \<and> contextPercent r \<noteq> JUndefined \<and> inputTokens r \<noteq> JUndefined
     \<and> outputTokens r \<noteq> JUndefined"
proof -
  from parseMetrics_accepted [OF accepted] obtain c json where
    c: "c \<in> set (candidates data)" and json: "parse (jsonPart c) = Some json"
    and r: "r = metricsOf toFloat json"
    by blast
  have falsy: "\<not> truthy (getProp json (asc ''c'')) \<longrightarrow> cost r = JNum (Finite 0)"
  proof
    assume "\<not> truthy (getProp json (asc ''c''))"
    moreover from parse_no_NaN json have "getProp json (asc ''c'') \<noteq> JNum NaN"
      by (simp add: parseWithoutNaN_def)
    ultimately show "cost r = JNum (Finite 0)"
      unfolding r using parseFloat_falsy by (rule metricsOf_cost_falsy)
  qed
  have num: "\<forall>n. getProp json (asc ''c'') = JNum n \<longrightarrow> cost r = JNum n"
    unfolding r by (simp add: metricsOf_cost_number)
  have str: "\<forall>s. getProp json (asc ''c'') = JStr s \<longrightarrow>
           cost r = orElse (JNum (toFloat (JStr s))) (JNum (Finite 0))"
    unfolding r by (simp add: metricsOf_def)
  have defaults:
    "model r = (if truthy (getProp json (asc ''m'')) then getProp json (asc ''m'')
                else JStr (asc ''Claude''))"
    "linesAdded r = (if truthy (getProp json (asc ''la'')) then getProp json (asc ''la'')
                     else JNum (Finite 0))"
    "linesRemoved r = (if truthy (getProp json (asc ''lr'')) then getProp json (asc ''lr'')
                       else JNum (Finite 0))"
    "contextPercent r = (if truthy (getProp json (asc ''cp'')) then getProp json (asc ''cp'')
                         else JNum (Finite 0))"
    "inputTokens r = (if truthy (getProp json (asc ''it'')) then getProp json (asc ''it'')
                      else JNum (Finite 0))"
    "outputTokens r = (if truthy (getProp json (asc ''ot'')) then getProp json (asc ''ot'')
                       else JNum (Finite 0))"
    "state r = (if truthy (getProp json (asc ''s'')) then getProp json (asc ''s'')
                else JUndefined)"
    unfolding r by (rule metricsOf_defaults)+
  have defined:
    "model r \<noteq> JUndefined" "\<exists>n. cost r = JNum n"
    "linesAdded r \<noteq> JUndefined" "linesRemoved r \<noteq> JUndefined"
    "contextPercent r \<noteq> JUndefined" "inputTokens r \<noteq> JUndefined"
    "outputTokens r \<noteq> JUndefined"
    unfolding r by (rule metricsOf_defined metricsOf_cost_is_number)+
  show ?thesis
    by (intro exI [of _ c] exI [of _ json] conjI c json falsy num str defaults defined)
qed

lemma example_parseMetrics:
  "parseMetrics exampleParse exampleFloat exampleData = Some exampleSnapshot"
  by (simp only: parseMetrics_find example_mostRecentAcceptable)

lemma exampleFloat_falsy: "parseFloatOfFalsy exampleFloat"
  by (auto simp: parseFloatOfFalsy_def exampleFloat_def asc_def)

lemma exampleParse_no_NaN: "parseWithoutNaN exampleParse"
  by (auto simp: parseWithoutNaN_def exampleParse_def asc_def split: if_splits)

theorem accepted_snapshot_defaults_witness:
  "parseMetrics exampleParse exampleFloat exampleData = Some exampleSnapshot
   \<and> parseFloatOfFalsy exampleFloat \<and> parseWithoutNaN exampleParse
   \<and> model exampleSnapshot = JStr (asc ''Claude'')
   \<and> model exampleSnapshot \<noteq> JUndefined
   \<and> (\<exists>n. cost exampleSnapshot = JNum n)
   \<and> linesAdded exampleSnapshot = JNum (Finite 0)
   \<and> outputTokens exampleSnapshot \<noteq> JUndefined"
proof -
  from accepted_snapshot_defaults [OF example_parseMetrics exampleFloat_falsy exampleParse_no_NaN]
  have "model exampleSnapshot \<noteq> JUndefined \<and> (\<exists>n. cost exampleSnapshot = JNum n)
      \<and> outputTokens exampleSnapshot \<noteq> JUndefined"
    by blast
  then show ?thesis
    by (simp add: example_parseMetrics exampleFloat_falsy exampleParse_no_NaN)
       (simp add: exampleSnapshot_def)
qed

subsection \<open>Metrics are last known good\<close>


lemma onData_cases:
  "onData detect parse toFloat agent now s data =
     (let s1 = s\<lparr> outputBuffer := pushOutput MAX_BUFFER_SIZE (outputBuffer s) data,
                   lastOutputTime := now,
                   recentOutputSize := recentOutputSize s + int (length data) \<rparr>;
          found = (if agent = asc ''claude'' then parseMetrics parse toFloat data else None);
          s2 = s1\<lparr> metrics := (case found of Some m \<Rightarrow> Some m | None \<Rightarrow> metrics s) \<rparr>;
          changed = (detect now s2 \<noteq> status s)
      in (s2\<lparr> status := detect now s2 \<rparr>,
          (case found of
             Some m \<Rightarrow> map (\<lambda>c. (clientId c, MetricsEvent m)) (openClients s)
           | None \<Rightarrow> []) @
          concat (map (\<lambda>c. (clientId c, OutputEvent data) #
                            (if changed
                             then [(clientId c, StatusEvent (detect now s2) (isRestored s))]
                             else []))
                      (openClients s))))"
  by (simp add: onData_def Let_def openClients_def split: option.splits cong: if_cong)

lemma metrics_onData_miss:
  "parseMetrics parse toFloat data = None \<Longrightarrow>
   metrics (fst (onData detect parse toFloat agent now s data)) = metrics s"
  by (simp add: onData_cases Let_def)

lemma metrics_onDataRestart: "metrics (fst (onDataRestart now s data)) = metrics s"
  by (simp add: onDataRestart_def Let_def)

lemma scan_status: "scanBufferForMetrics parse toFloat (s\<lparr> status := x \<rparr>) = scanBufferForMetrics parse toFloat s"
  by (simp add: scanBufferForMetrics_def)

lemma refreshEntry_miss:
  "scanBufferForMetrics parse toFloat s = None \<Longrightarrow>
   refreshEntry detect parse toFloat now sid s cache = (s\<lparr> status := detect now s \<rparr>, cache)"
  by (simp add: refreshEntry_def Let_def scan_status)

lemma refreshEntryNoCache_miss:
  "scanBufferForMetrics parse toFloat s = None \<Longrightarrow>
   refreshEntryNoCache detect parse toFloat now s = s\<lparr> status := detect now s \<rparr>"
  by (simp add: refreshEntryNoCache_def Let_def scan_status)

lemma refreshAll_entry:
  "i < length reg \<Longrightarrow>
   \<exists>c. fst (refreshAll detect parse toFloat now reg cache) ! i =
         (fst (reg ! i), fst (refreshEntry detect parse toFloat now (fst (reg ! i)) (snd (reg ! i)) c))"
proof (induction reg arbitrary: cache i)
  case Nil
  then show ?case by simp
next
  case (Cons entry reg)
  obtain sid s where entry: "entry = (sid, s)" by (cases entry)
  show ?case
  proof (cases i)
    case 0
    then show ?thesis
      by (auto simp: entry split_def Let_def)
  next
    case (Suc k)
    with Cons.prems have "k < length reg" by simp
    from Cons.IH [OF this] Suc show ?thesis
      by (simp add: entry split_def Let_def)
  qed
qed

lemma refreshAll_length: "length (fst (refreshAll detect parse toFloat now reg cache)) = length reg"
  by (induction reg arbitrary: cache) (auto simp: split_def Let_def)

lemma getSessions_miss:
  assumes "i < length (sessions w)" and "sessions w ! i = (sid, s)"
    and "scanBufferForMetrics parse toFloat s = None"
  shows "fst (getSessions detect parse toFloat now w cache) ! i = (sid, s\<lparr> status := detect now s \<rparr>)"
proof -
  from refreshAll_entry [OF assms(1)] obtain c where
    "fst (refreshAll detect parse toFloat now (sessions w) cache) ! i =
       (sid, fst (refreshEntry detect parse toFloat now sid s c))"
    using assms(2) by (metis fst_conv snd_conv)
  with assms(3) show ?thesis
    by (simp add: getSessions_def split_def Let_def refreshEntry_miss)
qed

text \<open>
  Claim C3. A scan that finds no acceptable candidate leaves the stored metrics of the
  session as they were: in the output handlers when \<^verbatim>\<open>parseMetrics\<close> returns null on the
  chunk (the handler of the restart route never scans), and in \<^verbatim>\<open>GET /sessions\<close>, with or
  without the cache, when \<^verbatim>\<open>scanBufferForMetrics\<close> returns null, for one entry and for the
  entry at every position of the registry.
\<close>

theorem scan_miss_keeps_metrics:
  "(parseMetrics parse toFloat data = None \<longrightarrow>
      metrics (fst (onData detect parse toFloat agent now s data)) = metrics s)
   \<and> metrics (fst (onDataRestart now s data)) = metrics s
   \<and> (scanBufferForMetrics parse toFloat s = None \<longrightarrow>
        metrics (fst (refreshEntry detect parse toFloat now sid s cache)) = metrics s
      \<and> snd (refreshEntry detect parse toFloat now sid s cache) = cache
      \<and> metrics (refreshEntryNoCache detect parse toFloat now s) = metrics s)
   \<and> (i < length (sessions w) \<and> sessions w ! i = (sid, s)
        \<and> scanBufferForMetrics parse toFloat s = None \<longrightarrow>
        (\<exists>s'. fst (getSessions detect parse toFloat now w cache) ! i = (sid, s')
            \<and> metrics s' = metrics s))"
  by (auto simp: metrics_onData_miss metrics_onDataRestart refreshEntry_miss
      refreshEntryNoCache_miss getSessions_miss)



lemma example_plain: "parseMetrics exampleParse exampleFloat (asc ''plain'') = None"
  by code_simp

lemma example_scan:
  "scanBufferForMetrics exampleParse exampleFloat (exampleSession\<lparr> metrics := Some exampleSnapshot \<rparr>) = None"
  by code_simp

theorem scan_miss_keeps_metrics_witness:
  "parseMetrics exampleParse exampleFloat (asc ''plain'') = None
   \<and> metrics (fst (onData exampleDetect exampleParse exampleFloat (asc ''claude'') 200
        (exampleSession\<lparr> metrics := Some exampleSnapshot \<rparr>) (asc ''plain''))) = Some exampleSnapshot
   \<and> scanBufferForMetrics exampleParse exampleFloat
        (exampleSession\<lparr> metrics := Some exampleSnapshot \<rparr>) = None
   \<and> metrics (fst (refreshEntry exampleDetect exampleParse exampleFloat 5000 (asc ''s7'')
        (exampleSession\<lparr> metrics := Some exampleSnapshot \<rparr>) Map.empty)) = Some exampleSnapshot"
  using scan_miss_keeps_metrics [where parse = exampleParse and toFloat = exampleFloat
      and data = "asc ''plain''" and detect = exampleDetect and agent = "asc ''claude''"
      and s = "exampleSession\<lparr> metrics := Some exampleSnapshot \<rparr>" and sid = "asc ''s7''"
      and cache = Map.empty]
  by (simp add: example_plain example_scan)


subsection \<open>Status messages\<close>

lemma concat_map_single: "concat (map (\<lambda>c. [f c]) xs) = map f xs"
  by (induction xs) simp_all

lemma status_onData_events:
  assumes "e \<in> set (snd (onData detect parse toFloat agent now s data))"
    and "isStatusEvent (snd e)"
  shows "status (fst (onData detect parse toFloat agent now s data)) \<noteq> status s
       \<and> snd e = StatusEvent (status (fst (onData detect parse toFloat agent now s data)))
                   (isRestored s)"
  using assms by (auto simp: onData_cases Let_def split: option.splits if_splits)

lemma unchanged_onData_events:
  assumes "status (fst (onData detect parse toFloat agent now s data)) = status s"
  shows "filter (\<lambda>e. \<not> isMetricsEvent (snd e)) (snd (onData detect parse toFloat agent now s data))
       = map (\<lambda>c. (clientId c, OutputEvent data)) (openClients s)"
  using assms
  by (auto simp: onData_cases Let_def concat_map_single filter_map comp_def split: option.splits)

lemma onDataRestart_events:
  "snd (onDataRestart now s data) = map (\<lambda>c. (clientId c, OutputEvent data)) (openClients s)"
  by (simp add: onDataRestart_def Let_def openClients_def)

text \<open>
  Claim C7. While a chunk is processed a \<^verbatim>\<open>status\<close> message is sent only when the status
  just resolved differs from the stored one, and it carries the new status. When the two
  are equal the messages, apart from \<^verbatim>\<open>metrics\<close> messages, are exactly one \<^verbatim>\<open>output\<close>
  message for each open client, in the order of the clients. The handler of the restart
  route sends the \<^verbatim>\<open>output\<close> messages and never a \<^verbatim>\<open>status\<close> message.
\<close>

theorem status_event_only_on_change:
  "(\<forall>e \<in> set (snd (onData detect parse toFloat agent now s data)).
      isStatusEvent (snd e) \<longrightarrow>
        status (fst (onData detect parse toFloat agent now s data)) \<noteq> status s
      \<and> snd e = StatusEvent (status (fst (onData detect parse toFloat agent now s data)))
                  (isRestored s))
   \<and> (status (fst (onData detect parse toFloat agent now s data)) = status s \<longrightarrow>
        filter (\<lambda>e. \<not> isMetricsEvent (snd e))
               (snd (onData detect parse toFloat agent now s data))
          = map (\<lambda>c. (clientId c, OutputEvent data)) (openClients s))
   \<and> snd (onDataRestart now s data) = map (\<lambda>c. (clientId c, OutputEvent data)) (openClients s)"
  using status_onData_events unchanged_onData_events onDataRestart_events by blast

lemma example_openClients: "openClients (exampleSession\<lparr> status := st \<rparr>) = [\<lparr> clientId = 1, readyState = 1 \<rparr>]"
  by (simp add: openClients_def exampleSession_def exampleClients_def)

lemma example_status:
  "status (fst (onData exampleDetect parse toFloat agent now (exampleSession\<lparr> status := st \<rparr>) data)) = Running"
  by (simp add: onData_cases Let_def exampleDetect_def exampleSession_def)

theorem status_event_only_on_change_witness:
  "status (fst (onData exampleDetect exampleParse exampleFloat (asc ''claude'') 200
       (exampleSession\<lparr> status := Running \<rparr>) exampleData)) = Running
   \<and> filter (\<lambda>e. \<not> isMetricsEvent (snd e))
        (snd (onData exampleDetect exampleParse exampleFloat (asc ''claude'') 200
           (exampleSession\<lparr> status := Running \<rparr>) exampleData))
      = [(1, OutputEvent exampleData)]
   \<and> snd (onData exampleDetect exampleParse exampleFloat (asc ''opencode'') 200
        (exampleSession\<lparr> status := Starting \<rparr>) (asc ''hi''))
      = [(1, OutputEvent (asc ''hi'')), (1, StatusEvent Running False)]
   \<and> status (fst (onData exampleDetect exampleParse exampleFloat (asc ''opencode'') 200
       (exampleSession\<lparr> status := Starting \<rparr>) (asc ''hi''))) \<noteq> Starting"
proof -
  have sent: "snd (onData exampleDetect exampleParse exampleFloat (asc ''opencode'') 200
        (exampleSession\<lparr> status := Starting \<rparr>) (asc ''hi''))
      = [(1, OutputEvent (asc ''hi'')), (1, StatusEvent Running False)]"
    by (simp add: onData_cases Let_def example_openClients)
       (simp add: exampleDetect_def exampleSession_def asc_def)
  from status_event_only_on_change [where detect = exampleDetect and parse = exampleParse
      and toFloat = exampleFloat and agent = "asc ''claude''" and now = 200
      and s = "exampleSession\<lparr> status := Running \<rparr>" and data = exampleData]
  have same: "filter (\<lambda>e. \<not> isMetricsEvent (snd e))
        (snd (onData exampleDetect exampleParse exampleFloat (asc ''claude'') 200
           (exampleSession\<lparr> status := Running \<rparr>) exampleData))
      = [(1, OutputEvent exampleData)]"
    by (simp add: example_status example_openClients)
  from status_event_only_on_change [where detect = exampleDetect and parse = exampleParse
      and toFloat = exampleFloat and agent = "asc ''opencode''" and now = 200
      and s = "exampleSession\<lparr> status := Starting \<rparr>" and data = "asc ''hi''"] sent
  have "status (fst (onData exampleDetect exampleParse exampleFloat (asc ''opencode'') 200
       (exampleSession\<lparr> status := Starting \<rparr>) (asc ''hi''))) \<noteq> Starting"
    by simp
  with sent same show ?thesis
    by (simp add: example_status)
qed

subsection \<open>Restart\<close>


lemma log_fields [simp]:
  "sessions (log_msg e l w) = sessions w"
  "spawned (log_msg e l w) = spawned w"
  "intervals (log_msg e l w) = intervals w"
  "console (log_msg e l w) = (if QUIET e then console w else console w @ [l])"
  by (simp_all add: log_msg_def)

lemma logError_fields [simp]:
  "sessions (logError e l w) = sessions w"
  "spawned (logError e l w) = spawned w"
  "intervals (logError e l w) = intervals w"
  "console (logError e l w) = (if QUIET e then console w else console w @ [l])"
  by (simp_all add: logError_def)

lemma restart_running:
  "map_of (sessions w) sid = Some s \<Longrightarrow> pty s \<noteq> None \<Longrightarrow>
   restartSession e sid w = (Inl AlreadyRunning, w)"
  by (simp add: restartSession_def)

lemma restart_failed:
  "fst (restartSession e sid w) \<noteq> Inr () \<Longrightarrow> snd (restartSession e sid w) = w"
  by (simp add: restartSession_def Let_def split: option.splits if_splits)

lemma restart_done:
  assumes "fst (restartSession e sid w) = Inr ()"
  shows "\<exists>s. map_of (sessions w) sid = Some s \<and> pty s = None
           \<and> spawned (snd (restartSession e sid w)) = spawned w @ [(spawnPty e (cwd s), cwd s)]
           \<and> map_of (sessions (snd (restartSession e sid w))) sid =
                Some (s\<lparr> pty := Some (spawnPty e (cwd s)), isRestored := False,
                         status := Starting, lastOutputTime := dateNow e \<rparr>)"
proof (cases "map_of (sessions w) sid")
  case None
  with assms show ?thesis by (simp add: restartSession_def)
next
  case (Some s)
  with assms have "pty s = None"
    by (simp add: restartSession_def split: if_splits)
  with Some show ?thesis
    by (simp add: restartSession_def Let_def update_conv')
qed

text \<open>
  Claim C4. Restarting a session that has a process binding fails with \<^verbatim>\<open>AlreadyRunning\<close>,
  HTTP status 400, and leaves the world as it was: the session with its binding, the list
  of spawned shells, the intervals, the console. Every restart that does not succeed
  leaves the world as it was, and a restart that succeeds found the session with no
  binding and spawned exactly one shell, in the directory of the session.
\<close>

theorem restart_live_session_rejected:
  "(\<forall>s. map_of (sessions w) sid = Some s \<and> pty s \<noteq> None \<longrightarrow>
        restartSession e sid w = (Inl AlreadyRunning, w))
   \<and> httpStatus AlreadyRunning = 400
   \<and> (fst (restartSession e sid w) \<noteq> Inr () \<longrightarrow> snd (restartSession e sid w) = w)
   \<and> (fst (restartSession e sid w) = Inr () \<longrightarrow>
        (\<exists>s. map_of (sessions w) sid = Some s \<and> pty s = None
           \<and> spawned (snd (restartSession e sid w)) = spawned w @ [(spawnPty e (cwd s), cwd s)]
           \<and> map_of (sessions (snd (restartSession e sid w))) sid =
                Some (s\<lparr> pty := Some (spawnPty e (cwd s)), isRestored := False,
                         status := Starting, lastOutputTime := dateNow e \<rparr>)))"
  using restart_running restart_failed restart_done by auto

theorem restart_live_session_rejected_witness:
  "map_of (sessions exampleWorld) (asc ''s7'') = Some exampleSession
   \<and> pty exampleSession = Some 7
   \<and> restartSession (exampleEnv False) (asc ''s7'') exampleWorld = (Inl AlreadyRunning, exampleWorld)
   \<and> spawned (snd (restartSession (exampleEnv False) (asc ''s7'') exampleWorld)) = [(7, asc ''/repo'')]
   \<and> fst (restartSession (exampleEnv False) (asc ''s1'') restoredWorld) = Inr ()
   \<and> spawned (snd (restartSession (exampleEnv False) (asc ''s1'') restoredWorld)) = [(8, asc ''/repo'')]"
proof -
  have a: "map_of (sessions exampleWorld) (asc ''s7'') = Some exampleSession"
    by (simp add: exampleWorld_def)
  have b: "pty exampleSession = Some 7"
    by (simp add: exampleSession_def)
  from restart_live_session_rejected [of exampleWorld "asc ''s7''" "exampleEnv False"] a b
  have rejected:
    "restartSession (exampleEnv False) (asc ''s7'') exampleWorld = (Inl AlreadyRunning, exampleWorld)"
    by simp
  have c: "map_of (sessions restoredWorld) (asc ''s1'') = Some (placeholder (exampleEnv False) exampleNode)"
    by (simp add: restoredWorld_def)
  then have ok: "fst (restartSession (exampleEnv False) (asc ''s1'') restoredWorld) = Inr ()"
    by (simp add: restartSession_def Let_def placeholder_def)
  with restart_live_session_rejected [of restoredWorld "asc ''s1''" "exampleEnv False"] c
  have "spawned (snd (restartSession (exampleEnv False) (asc ''s1'') restoredWorld)) =
          spawned restoredWorld @
            [(spawnPty (exampleEnv False) (cwd (placeholder (exampleEnv False) exampleNode)),
              cwd (placeholder (exampleEnv False) exampleNode))]"
    by auto
  then have "spawned (snd (restartSession (exampleEnv False) (asc ''s1'') restoredWorld)) =
          [(8, asc ''/repo'')]"
    by (simp add: restoredWorld_def exampleEnv_def placeholder_def exampleNode_def)
  with a b rejected ok show ?thesis
    by (simp add: exampleWorld_def)
qed

subsection \<open>Restoring sessions\<close>


lemma sessions_restoreNode:
  "map_of (sessions (restoreNode e w node)) sid =
     (if sid = node_sessionId node then Some (placeholder e node) else map_of (sessions w) sid)"
  by (simp add: restoreNode_def update_conv')

lemma sessions_restore_fold:
  "map_of (sessions (foldl (restoreNode e) w ns)) sid =
     (if filter (\<lambda>n. node_sessionId n = sid) ns = [] then map_of (sessions w) sid
      else Some (placeholder e (last (filter (\<lambda>n. node_sessionId n = sid) ns))))"
proof (induction ns rule: rev_induct)
  case Nil
  then show ?case by simp
next
  case (snoc n ns)
  then show ?case
    by (cases "node_sessionId n = sid") (simp_all add: sessions_restoreNode)
qed

lemma sessions_restoreSessions:
  "map_of (sessions (restoreSessions e doc w)) sid =
     (if filter (\<lambda>n. node_sessionId n = sid) (nodes doc) = [] then map_of (sessions w) sid
      else Some (placeholder e (last (filter (\<lambda>n. node_sessionId n = sid) (nodes doc)))))"
  by (simp add: restoreSessions_def sessions_restore_fold)

lemma placeholder_fields:
  "pty (placeholder e node) = None"
  "status (placeholder e node) = Disconnected"
  "isRestored (placeholder e node) = True"
  "outputBuffer (placeholder e node) = loadBuffer e (node_sessionId node)"
  "cwd (placeholder e node) = node_cwd node"
  "gitBranch (placeholder e node) = orUndefined (getGitBranch e (node_cwd node))"
  "clients (placeholder e node) = []"
  by (simp_all add: placeholder_def Let_def)

lemma filter_distinct_key:
  "distinct (map f xs) \<Longrightarrow> x \<in> set xs \<Longrightarrow> filter (\<lambda>y. f y = f x) xs = [x]"
proof (induction xs)
  case Nil
  then show ?case by simp
next
  case (Cons a xs)
  show ?case
  proof (cases "a = x")
    case True
    with Cons.prems have "f x \<notin> f ` set xs" by simp
    then have "\<forall>y \<in> set xs. f y \<noteq> f x" by (metis image_eqI)
    then have "filter (\<lambda>y. f y = f x) xs = []" by (simp add: filter_empty_conv)
    with True show ?thesis by simp
  next
    case False
    with Cons.prems have "x \<in> set xs" "f a \<noteq> f x" by auto
    with Cons show ?thesis by simp
  qed
qed

lemma restored_some_node:
  assumes "node \<in> set (nodes doc)"
  shows "\<exists>n \<in> set (nodes doc). node_sessionId n = node_sessionId node
           \<and> map_of (sessions (restoreSessions e doc w)) (node_sessionId node) =
                Some (placeholder e n)"
proof -
  let ?same = "filter (\<lambda>n. node_sessionId n = node_sessionId node) (nodes doc)"
  from assms have "node \<in> set ?same" by simp
  then have ne: "?same \<noteq> []" by (metis empty_iff empty_set)
  then have "last ?same \<in> set ?same" by (rule last_in_set)
  then have "last ?same \<in> set (nodes doc)"
    and "node_sessionId (last ?same) = node_sessionId node"
    by simp_all
  moreover from ne have
    "map_of (sessions (restoreSessions e doc w)) (node_sessionId node) =
       Some (placeholder e (last ?same))"
    by (simp add: sessions_restoreSessions)
  ultimately show ?thesis by blast
qed

text \<open>
  Claim C6. For every node of the state document \<^verbatim>\<open>restoreSessions\<close> leaves, under the
  session id of the node, a session with no process binding, status \<^verbatim>\<open>disconnected\<close>,
  \<^verbatim>\<open>isRestored\<close> true, the output history that \<^verbatim>\<open>loadBuffer\<close> reads for that id, and the
  branch that \<^verbatim>\<open>getGitBranch\<close> finds in its working directory now. When the session ids
  of the document are distinct that session is the placeholder of the node itself, with
  the working directory of the node.
\<close>

theorem restoreSessions_placeholders:
  assumes "node \<in> set (nodes doc)"
  shows "(\<exists>s. map_of (sessions (restoreSessions e doc w)) (node_sessionId node) = Some s
            \<and> pty s = None \<and> status s = Disconnected \<and> isRestored s
            \<and> outputBuffer s = loadBuffer e (node_sessionId node)
            \<and> gitBranch s = orUndefined (getGitBranch e (cwd s)))
       \<and> (distinct (map node_sessionId (nodes doc)) \<longrightarrow>
            map_of (sessions (restoreSessions e doc w)) (node_sessionId node) =
              Some (placeholder e node)
          \<and> cwd (placeholder e node) = node_cwd node
          \<and> gitBranch (placeholder e node) = orUndefined (getGitBranch e (node_cwd node)))"
proof (intro conjI impI)
  from restored_some_node [OF assms] obtain n where
    "node_sessionId n = node_sessionId node"
    "map_of (sessions (restoreSessions e doc w)) (node_sessionId node) = Some (placeholder e n)"
    by blast
  then show "\<exists>s. map_of (sessions (restoreSessions e doc w)) (node_sessionId node) = Some s
            \<and> pty s = None \<and> status s = Disconnected \<and> isRestored s
            \<and> outputBuffer s = loadBuffer e (node_sessionId node)
            \<and> gitBranch s = orUndefined (getGitBranch e (cwd s))"
    by (simp add: placeholder_fields)
next
  assume "distinct (map node_sessionId (nodes doc))"
  with assms have
    "filter (\<lambda>n. node_sessionId n = node_sessionId node) (nodes doc) = [node]"
    by (rule filter_distinct_key [rotated])
  then show "map_of (sessions (restoreSessions e doc w)) (node_sessionId node) =
      Some (placeholder e node)"
    by (simp add: sessions_restoreSessions)
qed (simp_all add: placeholder_fields)

theorem restoreSessions_placeholders_witness:
  "exampleNode \<in> set (nodes \<lparr> nodes = [exampleNode] \<rparr>)
   \<and> distinct (map node_sessionId (nodes \<lparr> nodes = [exampleNode] \<rparr>))
   \<and> map_of (sessions (restoreSessions (exampleEnv False) \<lparr> nodes = [exampleNode] \<rparr> emptyWorld))
        (asc ''s1'') = Some (placeholder (exampleEnv False) exampleNode)
   \<and> outputBuffer (placeholder (exampleEnv False) exampleNode) = [asc ''x'', asc ''y'']
   \<and> gitBranch (placeholder (exampleEnv False) exampleNode) = Some (asc ''main'')
   \<and> status (placeholder (exampleEnv False) exampleNode) = Disconnected"
proof -
  have a: "exampleNode \<in> set (nodes \<lparr> nodes = [exampleNode] \<rparr>)" by simp
  have d: "distinct (map node_sessionId (nodes \<lparr> nodes = [exampleNode] \<rparr>))" by simp
  have sid: "node_sessionId exampleNode = asc ''s1''" by (simp add: exampleNode_def)
  from restoreSessions_placeholders [OF a, of "exampleEnv False" emptyWorld] d
  have "map_of (sessions (restoreSessions (exampleEnv False) \<lparr> nodes = [exampleNode] \<rparr> emptyWorld))
        (asc ''s1'') = Some (placeholder (exampleEnv False) exampleNode)"
    unfolding sid by blast
  moreover have "outputBuffer (placeholder (exampleEnv False) exampleNode) = [asc ''x'', asc ''y'']"
    by (simp add: placeholder_fields exampleEnv_def sid)
  moreover have "gitBranch (placeholder (exampleEnv False) exampleNode) = Some (asc ''main'')"
    by (simp add: placeholder_fields exampleEnv_def exampleNode_def orUndefined_def asc_def)
  ultimately show ?thesis
    using a d by (simp add: placeholder_fields)
qed

subsection \<open>Creating a session when the worktree fails\<close>

lemma addWorktree_world:
  "sessions (snd (addWorktree e gitRoot path branchName baseBranch w)) = sessions w"
  "spawned (snd (addWorktree e gitRoot path branchName baseBranch w)) = spawned w"
  "intervals (snd (addWorktree e gitRoot path branchName baseBranch w)) = intervals w"
  by (simp_all add: addWorktree_def Let_def split_def split: spawnResult.splits)

lemma createWorktree_world:
  "sessions (snd (createWorktree e dir branchName baseBranch w)) = sessions w"
  "spawned (snd (createWorktree e dir branchName baseBranch w)) = spawned w"
  "intervals (snd (createWorktree e dir branchName baseBranch w)) = intervals w"
  by (simp_all add: createWorktree_def Let_def addWorktree_world)

lemma callCreateWorktree_world:
  "sessions (snd (callCreateWorktree e p w)) = sessions w"
  "spawned (snd (callCreateWorktree e p w)) = spawned w"
  "intervals (snd (callCreateWorktree e p w)) = intervals w"
  by (simp_all add: callCreateWorktree_def createWorktree_world)



lemma resolve_thrown:
  assumes "worktreeRequested p" and "fst (callCreateWorktree e p w) = Inl ex"
  shows "resolveWorkingDir e p w = (Inl ex, snd (callCreateWorktree e p w))"
proof (cases "callCreateWorktree e p w")
  case (Pair res w1)
  with assms show ?thesis
    by (simp add: resolveWorkingDir_def Let_def)
qed

lemma resolve_world:
  "sessions (snd (resolveWorkingDir e p w)) = sessions w"
  "spawned (snd (resolveWorkingDir e p w)) = spawned w"
  "intervals (snd (resolveWorkingDir e p w)) = intervals w"
proof -
  obtain res w1 where c: "callCreateWorktree e p w = (res, w1)"
    by (cases "callCreateWorktree e p w")
  from callCreateWorktree_world [of e p w] c
  have w1: "sessions w1 = sessions w" "spawned w1 = spawned w" "intervals w1 = intervals w"
    by simp_all
  show "sessions (snd (resolveWorkingDir e p w)) = sessions w"
    "spawned (snd (resolveWorkingDir e p w)) = spawned w"
    "intervals (snd (resolveWorkingDir e p w)) = intervals w"
    using c w1
    by (auto simp: resolveWorkingDir_def Let_def split: sum.splits option.splits)
qed





lemma createSession_thrown:
  assumes "worktreeRequested p" and "fst (callCreateWorktree e p w) = Inl ex"
  shows "fst (createSession e p w) = Inl ex"
    and "sessions (snd (createSession e p w)) = sessions w"
    and "spawned (snd (createSession e p w)) = spawned w"
  by (simp_all add: createSession_def resolve_thrown [OF assms] callCreateWorktree_world)






text \<open>
  What the amended claim leaves out: an exception of \<^verbatim>\<open>createWorktree\<close> ends
  \<^verbatim>\<open>createSession\<close> before the shell is spawned and before \<^verbatim>\<open>sessions.set\<close>. So it is when
  \<^verbatim>\<open>mkdirSync\<close> throws on the directory of the worktrees.
\<close>

lemma createSession_ended_by_exception:
  "worktreeRequested p \<Longrightarrow> fst (callCreateWorktree e p w) = Inl ex \<Longrightarrow>
   fst (createSession e p w) = Inl ex
   \<and> sessions (snd (createSession e p w)) = sessions w
   \<and> spawned (snd (createSession e p w)) = spawned w"
  by (simp add: createSession_thrown)

lemma example_mkdir_throws:
  "createSession ((exampleEnv False)\<lparr> mkdirSync := \<lambda>path. False \<rparr>) exampleParams emptyWorld =
     (Inl (Mkdir_threw (asc ''/repo-worktrees'')), emptyWorld)"
  by (simp add: createSession_def resolveWorkingDir_def worktreeRequested_def
      callCreateWorktree_def createWorktree_def exampleEnv_def exampleParams_def Let_def asc_def)

subsection \<open>No process binding, no \<^verbatim>\<open>running\<close>\<close>








end
